theory Spec2Isabelle
  imports Complex_Main
begin

section \<open>Spectral-axis conversion (spectral\_cube/spectral\_axis.py)\<close>

text \<open>
  A shallow embedding of the module that rewrites the spectral axis of a WCS object.
  Python floats are read as real numbers, so a statement about a formula is a statement
  about the exact arithmetic the code writes down, not about rounding.
\<close>

subsection \<open>Errors\<close>

text \<open>
  Every exception of the module, and those of the unit library that the module can
  provoke, is a value. The Python exception and its message are given for each.
\<close>

datatype error =
    InvalidCtypeLength      \<comment> \<open>ValueError: A valid ctype must either have 4 or 8 characters.\<close>
  | MissingConvention       \<comment> \<open>ValueError: A velocity convention must be specified\<close>
  | MissingRestValue        \<comment> \<open>ValueError: ... a reference wavelength/frequency is required.\<close>
  | AirWavelengthTarget     \<comment> \<open>NotImplementedError: Conversion to air wavelength is not supported.\<close>
  | UnitMismatch            \<comment> \<open>ValueError: ... the units of cdelt and crval don't match.\<close>
  | ZeroIncrement           \<comment> \<open>ValueError: Conversion failed: the output CDELT would be 0.\<close>
  | RestValueUnit           \<comment> \<open>ValueError: Rest Value was specified, but not in frequency or length units\<close>
  | AirNotConverted         \<comment> \<open>TypeError: Air wavelength should be converted to vacuum earlier.\<close>
  | AirOutput               \<comment> \<open>TypeError: Conversion to air wavelength not supported.\<close>
  | InvalidFrames           \<comment> \<open>ValueError: Invalid in/out frames\<close>
  | KeyError                \<comment> \<open>a dictionary lookup with a key the table lacks\<close>
  | IndexError              \<comment> \<open>a string index out of range\<close>
  | UnitConversionError     \<comment> \<open>the unit library cannot convert between the two units\<close>
  | AttributeError          \<comment> \<open>a method called on None\<close>
  | SingularMatrix          \<comment> \<open>SingularMatrixError of the WCS library: the linear transformation is singular\<close>
  | InvalidUnits            \<comment> \<open>the WCS library cannot bring the unit of the spectral axis to its SI unit\<close>

definition bind_err :: "error + 'a \<Rightarrow> ('a \<Rightarrow> error + 'b) \<Rightarrow> error + 'b" where
  "bind_err x f = (case x of Inl e \<Rightarrow> Inl e | Inr v \<Rightarrow> f v)"

definition lookup :: "('k \<rightharpoonup> 'v) \<Rightarrow> 'k \<Rightarrow> error + 'v" where
  "lookup d k = (case d k of None \<Rightarrow> Inl KeyError | Some v \<Rightarrow> Inr v)"

text \<open>\<open>s[i]\<close> on a Python string, for an index that is not negative: a string of one character.\<close>

definition py_index :: "string \<Rightarrow> nat \<Rightarrow> error + string" where
  "py_index s i = (if i < length s then Inr [s ! i] else Inl IndexError)"

subsection \<open>Units and quantities\<close>

text \<open>
  A unit of the unit library, restricted to the units built from the metre and the second:
  a scale to the SI unit and the two exponents. \<open>Hz\<close> is \<open>s\<^sup>-\<^sup>1\<close>. The exponents are
  rational because the code takes a square root of a quantity.
\<close>

record unit =
  scale :: real
  mpow :: rat
  spow :: rat

definition Hz :: unit where "Hz = \<lparr>scale = 1, mpow = 0, spow = -1\<rparr>"
definition metre :: unit where "metre = \<lparr>scale = 1, mpow = 1, spow = 0\<rparr>"
definition m_per_s :: unit where "m_per_s = \<lparr>scale = 1, mpow = 1, spow = -1\<rparr>"

text \<open>
  The strings \<open>'length'\<close>, \<open>'air wavelength'\<close>, \<open>'frequency'\<close> and \<open>'speed'\<close> of the
  module; \<open>OtherType\<close> stands for every other physical type name of the unit library.
\<close>

datatype phystype = Length | AirWavelength | Frequency | Speed | OtherType

text \<open>
  \<open>parse_phys_type(unit)\<close>: the unit library's physical type of the unit, with
  \<open>'speed/velocity'\<close> read as \<open>'speed'\<close>. No unit has the type air wavelength.
\<close>

definition parse_phys_type :: "unit \<Rightarrow> phystype" where
  "parse_phys_type u =
     (if mpow u = 1 \<and> spow u = -1 then Speed
      else if mpow u = 1 \<and> spow u = 0 then Length
      else if mpow u = 0 \<and> spow u = -1 then Frequency
      else OtherType)"

subsection \<open>Velocity conventions and the static tables\<close>

text \<open>The three equivalency constructors \<open>u.doppler_radio\<close>, \<open>u.doppler_optical\<close>, \<open>u.doppler_relativistic\<close>.\<close>

datatype convention = Radio | Optical | Relativistic

text \<open>What a caller may pass as a velocity convention: one of the constructors, or a string.\<close>

datatype vc_token = VCFun convention | VCStr string

fun parse_velocity_convention :: "vc_token \<Rightarrow> convention option" where
  "parse_velocity_convention (VCFun Radio) = Some Radio"
| "parse_velocity_convention (VCFun Optical) = Some Optical"
| "parse_velocity_convention (VCFun Relativistic) = Some Relativistic"
| "parse_velocity_convention (VCStr s) =
     (if s \<in> set [''radio'', ''RADIO'', ''VRAD'', ''F'', ''FREQ''] then Some Radio
      else if s \<in> set [''optical'', ''OPTICAL'', ''VOPT'', ''W'', ''WAVE''] then Some Optical
      else if s \<in> set [''relativistic'', ''RELATIVE'', ''VREL'', ''speed'', ''V'', ''VELO'']
        then Some Relativistic
      else None)"

fun LINEAR_CTYPES :: "convention \<Rightarrow> string" where
  "LINEAR_CTYPES Optical = ''VOPT''"
| "LINEAR_CTYPES Radio = ''VRAD''"
| "LINEAR_CTYPES Relativistic = ''VELO''"

fun LINEAR_CTYPE_CHARS :: "convention \<Rightarrow> string" where
  "LINEAR_CTYPE_CHARS Optical = ''W''"
| "LINEAR_CTYPE_CHARS Radio = ''F''"
| "LINEAR_CTYPE_CHARS Relativistic = ''V''"

text \<open>
  A lookup \<open>LINEAR_CTYPES[vc]\<close> where \<open>vc\<close> is the result of the parser: the key
  \<open>None\<close> is not in the table.
\<close>

definition by_convention :: "(convention \<Rightarrow> 'v) \<Rightarrow> convention option \<Rightarrow> error + 'v" where
  "by_convention d vc = (case vc of None \<Rightarrow> Inl KeyError | Some c \<Rightarrow> Inr (d c))"

text \<open>
  \<open>ALL_CTYPES\<close>: the entry of \<open>'speed'\<close> is the table \<open>LINEAR_CTYPES\<close> itself, the
  other two are strings.
\<close>

datatype ctype_entry = Tag string | ByConvention "convention \<Rightarrow> string"

definition ALL_CTYPES :: "phystype \<rightharpoonup> ctype_entry" where
  "ALL_CTYPES = [Speed \<mapsto> ByConvention LINEAR_CTYPES, Frequency \<mapsto> Tag ''FREQ'',
                 Length \<mapsto> Tag ''WAVE'']"

definition CTYPE_CHAR_TO_PHYSICALTYPE :: "string \<rightharpoonup> phystype" where
  "CTYPE_CHAR_TO_PHYSICALTYPE =
     [''W'' \<mapsto> Length, ''A'' \<mapsto> AirWavelength, ''F'' \<mapsto> Frequency, ''V'' \<mapsto> Speed]"

text \<open>After \<open>CTYPE_TO_PHYSICALTYPE.update(CTYPE_CHAR_TO_PHYSICALTYPE)\<close>.\<close>

definition CTYPE_TO_PHYSICALTYPE :: "string \<rightharpoonup> phystype" where
  "CTYPE_TO_PHYSICALTYPE =
     [''WAVE'' \<mapsto> Length, ''AIR'' \<mapsto> AirWavelength, ''AWAV'' \<mapsto> AirWavelength,
      ''FREQ'' \<mapsto> Frequency, ''VELO'' \<mapsto> Speed, ''VRAD'' \<mapsto> Speed, ''VOPT'' \<mapsto> Speed]
     ++ CTYPE_CHAR_TO_PHYSICALTYPE"

text \<open>The table \<open>CTYPE_CHAR_TO_PHYSICALTYPE\<close> with keys and values swapped.\<close>

definition PHYSICAL_TYPE_TO_CTYPE :: "phystype \<rightharpoonup> string" where
  "PHYSICAL_TYPE_TO_CTYPE =
     [Length \<mapsto> ''W'', AirWavelength \<mapsto> ''A'', Frequency \<mapsto> ''F'', Speed \<mapsto> ''V'']"

definition PHYSICAL_TYPE_TO_CHAR :: "phystype \<rightharpoonup> string" where
  "PHYSICAL_TYPE_TO_CHAR = [Speed \<mapsto> ''V'', Frequency \<mapsto> ''F'', Length \<mapsto> ''W'']"

definition WCS_UNIT_DICT :: "string \<rightharpoonup> unit" where
  "WCS_UNIT_DICT = [''F'' \<mapsto> Hz, ''W'' \<mapsto> metre, ''V'' \<mapsto> m_per_s]"

definition PHYS_UNIT_DICT :: "phystype \<rightharpoonup> unit" where
  "PHYS_UNIT_DICT = [Length \<mapsto> metre, Frequency \<mapsto> Hz, Speed \<mapsto> m_per_s]"

text \<open>After \<open>LINEAR_CUNIT_DICT.update(WCS_UNIT_DICT)\<close>.\<close>

definition LINEAR_CUNIT_DICT :: "string \<rightharpoonup> unit" where
  "LINEAR_CUNIT_DICT =
     [''VRAD'' \<mapsto> Hz, ''VOPT'' \<mapsto> metre, ''FREQ'' \<mapsto> Hz, ''WAVE'' \<mapsto> metre,
      ''VELO'' \<mapsto> m_per_s, ''AWAV'' \<mapsto> metre]
     ++ WCS_UNIT_DICT"

subsection \<open>Classifying a ctype\<close>

definition determine_vconv_from_ctype :: "string \<Rightarrow> error + convention option" where
  "determine_vconv_from_ctype ctype =
     (if length ctype < 5 then Inr (parse_velocity_convention (VCStr ctype))
      else if length ctype = 8 then
        bind_err (py_index ctype 7) (\<lambda>c. Inr (parse_velocity_convention (VCStr c)))
      else Inl InvalidCtypeLength)"

subsection \<open>Resolving the output ctype\<close>

text \<open>
  The first step of \<open>determine_ctype_from_vconv\<close>: the letter \<open>in_physchar\<close> of the
  quantity that the current ctype samples linearly.
\<close>

definition in_physchar_of :: "string \<Rightarrow> error + string" where
  "in_physchar_of ctype =
     (if length ctype > 4 then py_index ctype 5
      else bind_err (lookup LINEAR_CUNIT_DICT ctype) (\<lambda>lin_cunit.
             lookup PHYSICAL_TYPE_TO_CHAR (parse_phys_type lin_cunit)))"

text \<open>\<open>"{type}-{s1}2{s2}".format(...)\<close>\<close>

definition format_ctype :: "string \<Rightarrow> string \<Rightarrow> string \<Rightarrow> string" where
  "format_ctype type s1 s2 = type @ ''-'' @ s1 @ ''2'' @ s2"

text \<open>
  An entry of \<open>ALL_CTYPES\<close> where the code needs a string. The entry of \<open>'speed'\<close> is
  never read there: both reads are in the branch where the unit is not a speed, of a
  type that is equal to the unit's.
\<close>

definition tag_of :: "ctype_entry \<Rightarrow> string" where
  "tag_of e = (case e of Tag s \<Rightarrow> s | ByConvention d \<Rightarrow> [])"

definition determine_ctype_from_vconv ::
    "string \<Rightarrow> unit \<Rightarrow> vc_token option \<Rightarrow> error + string" where
  "determine_ctype_from_vconv ctype unit velocity_convention =
     bind_err (in_physchar_of ctype) (\<lambda>in_physchar.
       if parse_phys_type unit = Speed then
         (case velocity_convention of
            None \<Rightarrow>
              bind_err (py_index ctype 0) (\<lambda>c0.
                if c0 = ''V'' then Inr ctype else Inl MissingConvention)
          | Some vc \<Rightarrow>
              (let vcin = parse_velocity_convention (VCStr (take 4 ctype));
                   vcout = parse_velocity_convention vc
               in if vcin = vcout then by_convention LINEAR_CTYPES vcout
                  else bind_err (by_convention LINEAR_CTYPES vcout) (\<lambda>type.
                       bind_err (by_convention LINEAR_CTYPE_CHARS vcout) (\<lambda>s2.
                         Inr (format_ctype type in_physchar s2)))))
       else
         bind_err (lookup CTYPE_TO_PHYSICALTYPE in_physchar) (\<lambda>in_phystype.
           if in_phystype = parse_phys_type unit then
             bind_err (lookup ALL_CTYPES in_phystype) (\<lambda>e. Inr (tag_of e))
           else
             bind_err (lookup PHYSICAL_TYPE_TO_CTYPE (parse_phys_type unit)) (\<lambda>out_physchar.
             bind_err (lookup ALL_CTYPES (parse_phys_type unit)) (\<lambda>e.
               Inr (format_ctype (tag_of e) in_physchar out_physchar)))))"

subsection \<open>Quantities and the unit library\<close>

text \<open>
  A quantity is a value with a unit. The arithmetic of the unit library multiplies and
  divides the values and the units alike; addition and subtraction convert the right
  operand to the unit of the left one and fail when the dimensions differ. Where floating
  point gives an infinity or a NaN (a division by zero, the root of a negative number) and
  raises nothing, the model has the value of the total operation on the reals.
\<close>

record quantity =
  qval :: real
  qunit :: unit

definition same_dims :: "unit \<Rightarrow> unit \<Rightarrow> bool" where
  "same_dims u v = (mpow u = mpow v \<and> spow u = spow v)"

definition umul :: "unit \<Rightarrow> unit \<Rightarrow> unit" where
  "umul u v = \<lparr>scale = scale u * scale v, mpow = mpow u + mpow v, spow = spow u + spow v\<rparr>"

definition udiv :: "unit \<Rightarrow> unit \<Rightarrow> unit" where
  "udiv u v = \<lparr>scale = scale u / scale v, mpow = mpow u - mpow v, spow = spow u - spow v\<rparr>"

definition usqrt :: "unit \<Rightarrow> unit" where
  "usqrt u = \<lparr>scale = sqrt (scale u), mpow = mpow u / 2, spow = spow u / 2\<rparr>"

definition si :: "quantity \<Rightarrow> real" where
  "si q = qval q * scale (qunit q)"

definition qneg :: "quantity \<Rightarrow> quantity" where
  "qneg a = \<lparr>qval = - qval a, qunit = qunit a\<rparr>"

definition qmul :: "quantity \<Rightarrow> quantity \<Rightarrow> quantity" where
  "qmul a b = \<lparr>qval = qval a * qval b, qunit = umul (qunit a) (qunit b)\<rparr>"

definition qdiv :: "quantity \<Rightarrow> quantity \<Rightarrow> quantity" where
  "qdiv a b = \<lparr>qval = qval a / qval b, qunit = udiv (qunit a) (qunit b)\<rparr>"

definition qsquare :: "quantity \<Rightarrow> quantity" where
  "qsquare a = \<lparr>qval = (qval a)\<^sup>2, qunit = umul (qunit a) (qunit a)\<rparr>"

definition qsqrt :: "quantity \<Rightarrow> quantity" where
  "qsqrt a = \<lparr>qval = sqrt (qval a), qunit = usqrt (qunit a)\<rparr>"

definition qtimes :: "real \<Rightarrow> quantity \<Rightarrow> quantity" where
  "qtimes k a = \<lparr>qval = k * qval a, qunit = qunit a\<rparr>"

definition qadd :: "quantity \<Rightarrow> quantity \<Rightarrow> error + quantity" where
  "qadd a b =
     (if same_dims (qunit a) (qunit b)
      then Inr \<lparr>qval = qval a + si b / scale (qunit a), qunit = qunit a\<rparr>
      else Inl UnitConversionError)"

definition qsub :: "quantity \<Rightarrow> quantity \<Rightarrow> error + quantity" where
  "qsub a b =
     (if same_dims (qunit a) (qunit b)
      then Inr \<lparr>qval = qval a - si b / scale (qunit a), qunit = qunit a\<rparr>
      else Inl UnitConversionError)"

text \<open>\<open>constants.c\<close>, the speed of light in metres per second.\<close>

definition c_value :: real where
  "c_value = 299792458"

definition c_light :: quantity where
  "c_light = \<lparr>qval = c_value, qunit = m_per_s\<rparr>"

text \<open>
  The equivalencies the module passes to a conversion: \<open>u.spectral()\<close>, and a Doppler
  convention anchored at a rest value. \<open>wavenumber\<close> is the unit \<open>m\<^sup>-\<^sup>1\<close>, the third
  spectral unit that the metre and the second can express.
\<close>

datatype equivalency = Spectral | Doppler convention quantity

definition wavenumber :: unit where
  "wavenumber = \<lparr>scale = 1, mpow = -1, spow = 0\<rparr>"

text \<open>The rules of \<open>u.spectral()\<close> on SI values; which rule applies depends on the dimensions only.\<close>

definition spectral_fn :: "unit \<Rightarrow> unit \<Rightarrow> (real \<Rightarrow> real) option" where
  "spectral_fn u v =
     (if same_dims u metre \<and> same_dims v Hz then Some (\<lambda>x. c_value / x)
      else if same_dims u Hz \<and> same_dims v metre then Some (\<lambda>x. c_value / x)
      else if same_dims u metre \<and> same_dims v wavenumber then Some (\<lambda>x. 1 / x)
      else if same_dims u wavenumber \<and> same_dims v metre then Some (\<lambda>x. 1 / x)
      else if same_dims u Hz \<and> same_dims v wavenumber then Some (\<lambda>x. x / c_value)
      else if same_dims u wavenumber \<and> same_dims v Hz then Some (\<lambda>x. c_value * x)
      else None)"

text \<open>\<open>q.to(u)\<close> with no equivalency: a change of scale.\<close>

definition to_unit :: "quantity \<Rightarrow> unit \<Rightarrow> error + quantity" where
  "to_unit q u =
     (if same_dims (qunit q) u then Inr \<lparr>qval = si q / scale u, qunit = u\<rparr>
      else Inl UnitConversionError)"

text \<open>The Doppler formulas of the unit library, on SI values, for a rest frequency or a rest wavelength.\<close>

fun to_vel_freq :: "convention \<Rightarrow> real \<Rightarrow> real \<Rightarrow> real" where
  "to_vel_freq Radio restfreq x = (restfreq - x) / restfreq * c_value"
| "to_vel_freq Optical restfreq x = c_value * (restfreq - x) / x"
| "to_vel_freq Relativistic restfreq x = (restfreq\<^sup>2 - x\<^sup>2) / (restfreq\<^sup>2 + x\<^sup>2) * c_value"

fun from_vel_freq :: "convention \<Rightarrow> real \<Rightarrow> real \<Rightarrow> real" where
  "from_vel_freq Radio restfreq x = restfreq * (1 - x / c_value)"
| "from_vel_freq Optical restfreq x = restfreq / (1 + x / c_value)"
| "from_vel_freq Relativistic restfreq x =
     restfreq * sqrt ((1 - x / c_value) / (1 + x / c_value))"

fun to_vel_wav :: "convention \<Rightarrow> real \<Rightarrow> real \<Rightarrow> real" where
  "to_vel_wav Radio restwav x = (x - restwav) / x * c_value"
| "to_vel_wav Optical restwav x = c_value * (x / restwav - 1)"
| "to_vel_wav Relativistic restwav x = (x\<^sup>2 - restwav\<^sup>2) / (restwav\<^sup>2 + x\<^sup>2) * c_value"

fun from_vel_wav :: "convention \<Rightarrow> real \<Rightarrow> real \<Rightarrow> real" where
  "from_vel_wav Radio restwav x = restwav * c_value / (c_value - x)"
| "from_vel_wav Optical restwav x = restwav * (1 + x / c_value)"
| "from_vel_wav Relativistic restwav x =
     restwav * sqrt ((1 + x / c_value) / (1 - x / c_value))"

text \<open>\<open>rest.to_value(unit, spectral())\<close> inside a Doppler rule, as an SI value.\<close>

definition rest_as :: "quantity \<Rightarrow> unit \<Rightarrow> error + real" where
  "rest_as rest u =
     (if same_dims (qunit rest) u then Inr (si rest)
      else case spectral_fn (qunit rest) u of
             Some f \<Rightarrow> Inr (f (si rest))
           | None \<Rightarrow> Inl UnitConversionError)"

text \<open>
  The rule of one equivalency between two units, if it has one: \<open>None\<close> when the
  equivalency does not relate the two dimensions, otherwise the function on SI values
  (or the error of reading the rest value).
\<close>

fun equiv_fn :: "equivalency \<Rightarrow> unit \<Rightarrow> unit \<Rightarrow> (error + (real \<Rightarrow> real)) option" where
  "equiv_fn Spectral u v = map_option Inr (spectral_fn u v)"
| "equiv_fn (Doppler vc rest) u v =
     (if same_dims u Hz \<and> same_dims v m_per_s
        then Some (bind_err (rest_as rest Hz) (\<lambda>r. Inr (to_vel_freq vc r)))
      else if same_dims u m_per_s \<and> same_dims v Hz
        then Some (bind_err (rest_as rest Hz) (\<lambda>r. Inr (from_vel_freq vc r)))
      else if same_dims u metre \<and> same_dims v m_per_s
        then Some (bind_err (rest_as rest metre) (\<lambda>r. Inr (to_vel_wav vc r)))
      else if same_dims u m_per_s \<and> same_dims v metre
        then Some (bind_err (rest_as rest metre) (\<lambda>r. Inr (from_vel_wav vc r)))
      else None)"

text \<open>
  \<open>q.to(u, equivalencies)\<close>: a change of scale when the dimensions agree, otherwise the
  first equivalency of the list that relates the two dimensions.
\<close>

fun apply_equivalencies :: "equivalency list \<Rightarrow> quantity \<Rightarrow> unit \<Rightarrow> error + quantity" where
  "apply_equivalencies [] q u = Inl UnitConversionError"
| "apply_equivalencies (e # es) q u =
     (case equiv_fn e (qunit q) u of
        Some r \<Rightarrow> bind_err r (\<lambda>f. Inr \<lparr>qval = f (si q) / scale u, qunit = u\<rparr>)
      | None \<Rightarrow> apply_equivalencies es q u)"

definition to_equiv :: "quantity \<Rightarrow> unit \<Rightarrow> equivalency list \<Rightarrow> error + quantity" where
  "to_equiv q u eqs =
     (if same_dims (qunit q) u then Inr \<lparr>qval = si q / scale u, qunit = u\<rparr>
      else apply_equivalencies eqs q u)"

text \<open>
  \<open>u.doppler_radio(rest)\<close> and its two siblings check, when they are built, that the
  rest value is a spectral quantity.
\<close>

definition doppler :: "convention \<Rightarrow> quantity \<Rightarrow> error + equivalency" where
  "doppler vc rest =
     bind_err (to_equiv rest Hz [Spectral]) (\<lambda>_. Inr (Doppler vc rest))"

text \<open>\<open>rest.to(unit, u.spectral())\<close> where \<open>rest\<close> may be \<open>None\<close>.\<close>

definition rest_to :: "quantity option \<Rightarrow> unit \<Rightarrow> error + quantity" where
  "rest_to rest u =
     (case rest of None \<Rightarrow> Inl AttributeError | Some r \<Rightarrow> to_equiv r u [Spectral])"

subsection \<open>The derivative transformer\<close>

definition cdelt_derivative ::
    "quantity \<Rightarrow> quantity \<Rightarrow> phystype \<Rightarrow> phystype \<Rightarrow> bool \<Rightarrow> quantity option
     \<Rightarrow> error + quantity" where
  "cdelt_derivative crval cdelt intype outtype lin rest =
     (if intype = outtype then Inr cdelt
      else if {outtype, intype} = {Length, Frequency} then
        bind_err (lookup PHYS_UNIT_DICT outtype) (\<lambda>u.
          to_unit (qmul (qdiv (qneg c_light) (qsquare crval)) cdelt) u)
      else if outtype \<in> {Frequency, Length} \<and> intype = Speed then
        bind_err
          (if lin then
             bind_err (lookup PHYS_UNIT_DICT outtype) (\<lambda>u.
             bind_err (rest_to rest u) (\<lambda>r.
               Inr (qmul cdelt r, c_light)))
           else
             bind_err (lookup PHYS_UNIT_DICT outtype) (\<lambda>u.
             bind_err (rest_to rest u) (\<lambda>r.
             bind_err (qadd c_light crval) (\<lambda>s.
             bind_err (qsub (qsquare c_light) (qsquare crval)) (\<lambda>d.
               Inr (qmul (qmul cdelt c_light) r, qmul s (qsqrt d)))))))
          (\<lambda>(numer, denom).
             bind_err (lookup PHYS_UNIT_DICT outtype) (\<lambda>u.
               if outtype = Frequency then to_equiv (qdiv (qneg numer) denom) u [Spectral]
               else to_equiv (qdiv numer denom) u [Spectral]))
      else if outtype = Speed \<and> intype \<in> {Frequency, Length} then
        bind_err
          (if lin then
             bind_err (lookup PHYS_UNIT_DICT intype) (\<lambda>u.
             bind_err (rest_to rest u) (\<lambda>r.
               Inr (qmul cdelt c_light, r)))
           else
             bind_err (rest_to rest (qunit crval)) (\<lambda>r.
             bind_err (rest_to rest (qunit crval)) (\<lambda>r'.
             bind_err (qadd (qsquare crval) (qsquare r')) (\<lambda>s.
               Inr (qmul (qmul (qmul (qtimes 4 c_light) crval) (qsquare r)) cdelt,
                    qsquare s)))))
          (\<lambda>(numer, denom).
             bind_err (lookup PHYS_UNIT_DICT outtype) (\<lambda>u.
               if intype = Frequency then to_equiv (qdiv (qneg numer) denom) u [Spectral]
               else to_equiv (qdiv numer denom) u [Spectral]))
      else if intype = AirWavelength then Inl AirNotConverted
      else if outtype = AirWavelength then Inl AirOutput
      else Inl InvalidFrames)"

subsection \<open>Air and vacuum wavelengths\<close>

definition micron :: unit where
  "micron = \<lparr>scale = 1 / 1000000, mpow = 1, spow = 0\<rparr>"

text \<open>\<open>wavelength.to(u.um).value\<close>\<close>

definition wlum_of :: "quantity \<Rightarrow> error + real" where
  "wlum_of wavelength = bind_err (to_unit wavelength micron) (\<lambda>q. Inr (qval q))"

definition air_to_vac :: "quantity \<Rightarrow> error + quantity" where
  "air_to_vac wavelength =
     bind_err (wlum_of wavelength) (\<lambda>wlum.
       Inr (qtimes (1 + 1 / 1000000 * (287.6155 + 1.62887 / wlum\<^sup>2 + 0.01360 / wlum ^ 4))
              wavelength))"

definition vac_to_air :: "quantity \<Rightarrow> error + quantity" where
  "vac_to_air wavelength =
     bind_err (wlum_of wavelength) (\<lambda>wlum.
       let nl = 1 + 1 / 1000000 * (287.6155 + 1.62887 / wlum\<^sup>2 + 0.01360 / wlum ^ 4)
       in Inr (qtimes (1 / nl) wavelength))"

definition air_to_vac_deriv :: "quantity \<Rightarrow> error + real" where
  "air_to_vac_deriv wavelength =
     bind_err (wlum_of wavelength) (\<lambda>wlum.
       Inr (1 + 1 / 1000000 * (287.6155 - 1.62887 / wlum\<^sup>2 - 0.04080 / wlum ^ 4)))"

subsection \<open>The WCS object\<close>

text \<open>
  The fields of the WCS object that the module reads or writes. \<open>spec\<close> is the index of
  the spectral axis (the object has one); the lists have one entry per axis. \<open>cd\<close> is
  \<open>None\<close> when the object has no attribute \<open>cd\<close>. \<open>cunit\<close> holds the units that the
  unit strings parse to, and writing a unit back as a FITS string is taken to succeed.
  Every other field and all further metadata are the extension part of the record.
\<close>

record wcs =
  spec :: nat
  crval :: "real list"
  cdelt :: "real list"
  cunit :: "unit list"
  ctype :: "string list"
  cd :: "real list list option"
  pc :: "real list list"
  restfrq :: real
  restwav :: real

text \<open>A rest field is set when it is truthy, that is, not zero.\<close>

definition get_rest_value_from_wcs :: "'a wcs_scheme \<Rightarrow> quantity option" where
  "get_rest_value_from_wcs mywcs =
     (if restfrq mywcs \<noteq> 0 then Some \<lparr>qval = restfrq mywcs, qunit = Hz\<rparr>
      else if restwav mywcs \<noteq> 0 then Some \<lparr>qval = restwav mywcs, qunit = metre\<rparr>
      else None)"

subsection \<open>Setting a WCS object\<close>

text \<open>
  The WCS library sets an object (\<open>wcsset\<close>) before it computes with it, and two
  operations that the module calls do so: \<open>deepcopy\<close> sets the copy, and
  \<open>pixel_scale_matrix\<close> sets the object it is read from, in place. Two effects of setting
  an object are modelled. The spectral axis is brought to the SI unit of its ctype: the
  reference value, the increment and the row of the CD matrix are multiplied by the scale
  of the unit, and the unit becomes the SI one; a blank unit becomes the SI one with no
  rescaling, and a unit of another dimension is refused. Then the linear transformation
  (the CD matrix, which replaces \<open>cdelt\<close> by ones, or the PC matrix with its rows
  multiplied by \<open>cdelt\<close>) must not be singular. Every other check that the library makes,
  and its treatment of the other axes, are outside the model, as is the state that a
  refused object is left in.
\<close>

definition dimensionless :: unit where
  "dimensionless = \<lparr>scale = 1, mpow = 0, spow = 0\<rparr>"

text \<open>The SI unit of a spectral ctype, by the first four characters of the tag.\<close>

definition SPECTRAL_SI_UNIT :: "string \<rightharpoonup> unit" where
  "SPECTRAL_SI_UNIT =
     [''FREQ'' \<mapsto> Hz, ''WAVE'' \<mapsto> metre, ''AWAV'' \<mapsto> metre,
      ''VRAD'' \<mapsto> m_per_s, ''VOPT'' \<mapsto> m_per_s, ''VELO'' \<mapsto> m_per_s]"

definition wcs_units :: "'a wcs_scheme \<Rightarrow> error + 'a wcs_scheme" where
  "wcs_units w =
     (let s = spec w in
      case SPECTRAL_SI_UNIT (take 4 (ctype w ! s)) of
        None \<Rightarrow> Inr w
      | Some si_unit \<Rightarrow>
          if cunit w ! s = dimensionless then Inr (w\<lparr>cunit := (cunit w)[s := si_unit]\<rparr>)
          else if same_dims (cunit w ! s) si_unit then
            (let k = scale (cunit w ! s) / scale si_unit in
             Inr (w\<lparr>crval := (crval w)[s := crval w ! s * k],
                    cdelt := (cdelt w)[s := cdelt w ! s * k],
                    cd := map_option (\<lambda>m. m[s := map (\<lambda>x. x * k) (m ! s)]) (cd w),
                    cunit := (cunit w)[s := si_unit]\<rparr>))
          else Inl InvalidUnits)"

text \<open>With a CD matrix the increments are in the matrix, and \<open>cdelt\<close> is all ones.\<close>

definition wcs_linear :: "'a wcs_scheme \<Rightarrow> 'a wcs_scheme" where
  "wcs_linear w =
     (case cd w of Some m \<Rightarrow> w\<lparr>cdelt := map (\<lambda>_. 1) (cdelt w)\<rparr> | None \<Rightarrow> w)"

definition lin_matrix :: "'a wcs_scheme \<Rightarrow> real list list" where
  "lin_matrix w =
     (case cd w of
        Some m \<Rightarrow> m
      | None \<Rightarrow> map2 (\<lambda>d row. map (\<lambda>x. d * x) row) (cdelt w) (pc w))"

text \<open>The determinant of a square matrix, by expansion along the first row.\<close>

function det :: "real list list \<Rightarrow> real" where
  "det [] = 1"
| "det (r # rs) =
     sum_list (map (\<lambda>j. (- 1) ^ j * (r ! j) *
                         det (map (\<lambda>row. take j row @ drop (Suc j) row) rs))
                   [0..<length r])"
  by pat_completeness auto
termination
  by (relation "measure length") auto

definition wcsset :: "'a wcs_scheme \<Rightarrow> error + 'a wcs_scheme" where
  "wcsset w =
     bind_err (wcs_units w) (\<lambda>w1.
       let w2 = wcs_linear w1
       in if det (lin_matrix w2) = 0 then Inl SingularMatrix else Inr w2)"

text \<open>
  WCS objects live in a store, addressed by their position; a Python reference is an
  address. \<open>deepcopy\<close> allocates a new object with the contents of the old one, and sets it.
\<close>

type_synonym 'a heap = "'a wcs_scheme list"

definition deepcopy :: "'a heap \<Rightarrow> nat \<Rightarrow> error + ('a heap \<times> nat)" where
  "deepcopy h r =
     (case wcsset (h ! r) of
        Inl e \<Rightarrow> Inl e
      | Inr w \<Rightarrow> Inr (h @ [w], length h))"

text \<open>
  The entry \<open>[spec, spec]\<close> of the pixel scale matrix of a set object: the CD matrix when
  there is one, otherwise the product of the diagonal matrix of \<open>cdelt\<close> with the PC
  matrix.
\<close>

definition pixel_scale_spec :: "'a wcs_scheme \<Rightarrow> real" where
  "pixel_scale_spec w =
     (case cd w of
        Some m \<Rightarrow> m ! spec w ! spec w
      | None \<Rightarrow> cdelt w ! spec w * (pc w ! spec w ! spec w))"

text \<open>
  \<open>mywcs.pixel_scale_matrix[mywcs.wcs.spec, mywcs.wcs.spec]\<close>: the object is set where it
  is, and the entry is read from the set object.
\<close>

definition pixel_scale_matrix :: "'a heap \<Rightarrow> nat \<Rightarrow> 'a heap \<times> (error + real)" where
  "pixel_scale_matrix h r =
     (case wcsset (h ! r) of
        Inl e \<Rightarrow> (h, Inl e)
      | Inr w \<Rightarrow> (h[r := w], Inr (pixel_scale_spec w)))"

subsection \<open>The axis converter\<close>

text \<open>
  Lines 243 to 260 of \<open>convert_spectral_axis\<close>: the rest value the conversion is
  anchored at. The result is the pair of \<open>rest_value\<close> (which the code reassigns when
  the output is a speed and none was supplied) and \<open>ref_value\<close>.
\<close>

definition resolve_rest_value ::
    "unit \<Rightarrow> unit \<Rightarrow> quantity option \<Rightarrow> quantity option
     \<Rightarrow> error + (quantity option \<times> quantity option)" where
  "resolve_rest_value inunit outunit rest_value wcs_rv =
     (if parse_phys_type outunit = Speed then
        (case (case rest_value of None \<Rightarrow> wcs_rv | Some rv \<Rightarrow> Some rv) of
           None \<Rightarrow> Inl MissingRestValue
         | Some rv \<Rightarrow>
             bind_err (to_equiv rv Hz [Spectral]) (\<lambda>ref_value. Inr (Some rv, Some ref_value)))
      else if parse_phys_type inunit = Speed then
        (case rest_value of
           Some rv \<Rightarrow> Inr (rest_value, Some rv)
         | None \<Rightarrow>
             (case wcs_rv of
                Some rv \<Rightarrow> Inr (rest_value, Some rv)
              | None \<Rightarrow> Inl MissingRestValue))
      else Inr (rest_value, None))"

text \<open>\<open>ctype[7] if len(ctype) > 4 else ctype[:4]\<close>\<close>

definition conv_part :: "string \<Rightarrow> error + string" where
  "conv_part ct = (if length ct > 4 then py_index ct 7 else Inr (take 4 ct))"

text \<open>\<open>LINEAR_CUNIT_DICT[k] if k in LINEAR_CUNIT_DICT else other\<close>\<close>

definition linear_unit_or :: "string \<Rightarrow> unit \<Rightarrow> unit" where
  "linear_unit_or k other = (case LINEAR_CUNIT_DICT k of Some u \<Rightarrow> u | None \<Rightarrow> other)"

text \<open>\<open>u.spectral() + vc(ref_value)\<close>, and the same sum in the other order.\<close>

definition spectral_plus :: "convention \<Rightarrow> quantity \<Rightarrow> error + equivalency list" where
  "spectral_plus vc ref_value = bind_err (doppler vc ref_value) (\<lambda>e. Inr ([Spectral] @ [e]))"

definition plus_spectral :: "convention \<Rightarrow> quantity \<Rightarrow> error + equivalency list" where
  "plus_spectral vc ref_value = bind_err (doppler vc ref_value) (\<lambda>e. Inr ([e] @ [Spectral]))"

text \<open>
  Lines 263 to 277: what the two ctypes say about the conversion. The result is the
  input ctype, the linear unit of the input, its convention, the physical type of the
  linear form of the output, its linear unit and its convention. Nothing here touches the
  library.
\<close>

type_synonym plan = "string \<times> unit \<times> convention option \<times> phystype \<times> unit \<times> convention option"

definition axis_plan :: "'a wcs_scheme \<Rightarrow> unit \<Rightarrow> string \<Rightarrow> error + plan" where
  "axis_plan mywcs outunit out_ctype =
     (let in_spec_ctype = ctype mywcs ! spec mywcs in
      bind_err (conv_part in_spec_ctype) (\<lambda>lin_ctype.
      let lin_cunit = linear_unit_or lin_ctype (cunit mywcs ! spec mywcs);
          in_vcequiv = parse_velocity_convention (VCStr (take 4 in_spec_ctype)) in
      bind_err (conv_part out_ctype) (\<lambda>out_ctype_conv.
      bind_err (lookup CTYPE_TO_PHYSICALTYPE out_ctype_conv) (\<lambda>out_type.
      if out_type = AirWavelength then Inl AirWavelengthTarget
      else
        let out_lin_cunit = linear_unit_or out_ctype_conv outunit;
            out_vcequiv = parse_velocity_convention (VCStr out_ctype_conv)
        in Inr (in_spec_ctype, lin_cunit, in_vcequiv, out_type, out_lin_cunit, out_vcequiv)))))"

text \<open>
  The air-wavelength pass (lines 286 to 293): the reference value, the increment and the
  working ctype after it. The warning it emits is not modelled.
\<close>

definition air_pass ::
    "string \<Rightarrow> quantity \<Rightarrow> quantity \<Rightarrow> error + (string \<times> quantity \<times> quantity)" where
  "air_pass in_spec_ctype crval_in cdelt_in =
     (if in_spec_ctype = ''AWAV'' then
        bind_err (air_to_vac_deriv crval_in) (\<lambda>k.
        bind_err (air_to_vac crval_in) (\<lambda>crval_in'.
          Inr (''WAVE'', crval_in', qtimes k cdelt_in)))
      else Inr (in_spec_ctype, crval_in, cdelt_in))"

text \<open>Step 1 (lines 295 to 307): the input to its linear form.\<close>

definition to_linear ::
    "string \<Rightarrow> quantity \<Rightarrow> quantity \<Rightarrow> unit \<Rightarrow> convention option \<Rightarrow> quantity option
     \<Rightarrow> error + (quantity \<times> quantity)" where
  "to_linear in_spec_ctype crval_in cdelt_in lin_cunit in_vcequiv ref_value =
     bind_err
       (case (in_vcequiv, ref_value) of
          (Some vc, Some rv) \<Rightarrow>
            bind_err (spectral_plus vc rv) (\<lambda>eqs. to_equiv crval_in lin_cunit eqs)
        | _ \<Rightarrow> to_equiv crval_in lin_cunit [Spectral])
       (\<lambda>crval_lin1.
     bind_err (lookup CTYPE_TO_PHYSICALTYPE (take 4 in_spec_ctype)) (\<lambda>intype.
     bind_err
       (cdelt_derivative crval_in cdelt_in intype (parse_phys_type lin_cunit) True ref_value)
       (\<lambda>cdelt_lin1. Inr (crval_lin1, cdelt_lin1))))"

text \<open>Step 2 (lines 309 to 327): the linear form of the input to the linear form of the output.\<close>

definition linear_to_linear ::
    "quantity \<Rightarrow> quantity \<Rightarrow> unit \<Rightarrow> unit \<Rightarrow> phystype \<Rightarrow> convention option
     \<Rightarrow> convention option \<Rightarrow> quantity option \<Rightarrow> error + (quantity \<times> quantity)" where
  "linear_to_linear crval_lin1 cdelt_lin1 lin_cunit out_lin_cunit out_type in_vcequiv
       out_vcequiv ref_value =
     bind_err
       (case ref_value of
          None \<Rightarrow> to_equiv crval_lin1 out_lin_cunit [Spectral]
        | Some rv \<Rightarrow>
            bind_err (spectral_plus Relativistic rv) (\<lambda>eqs.
              to_equiv crval_lin1 out_lin_cunit eqs))
       (\<lambda>crval_lin2.
     let linear_middle = (in_vcequiv = out_vcequiv) in
     bind_err
       (cdelt_derivative crval_lin1 cdelt_lin1 (parse_phys_type lin_cunit) out_type
          linear_middle ref_value)
       (\<lambda>cdelt_lin2. Inr (crval_lin2, cdelt_lin2)))"

text \<open>Step 3 (lines 329 to 342): the linear form of the output to the output.\<close>

definition from_linear ::
    "quantity \<Rightarrow> quantity \<Rightarrow> unit \<Rightarrow> phystype \<Rightarrow> convention option \<Rightarrow> quantity option
     \<Rightarrow> error + (quantity \<times> quantity)" where
  "from_linear crval_lin2 cdelt_lin2 outunit out_type out_vcequiv ref_value =
     (case (out_vcequiv, ref_value) of
        (Some vc, Some rv) \<Rightarrow>
          bind_err (plus_spectral vc rv) (\<lambda>eqs.
          bind_err (to_equiv crval_lin2 outunit eqs) (\<lambda>crval_out.
          bind_err
            (cdelt_derivative crval_lin2 cdelt_lin2 out_type (parse_phys_type outunit) True
               ref_value)
            (\<lambda>d.
          bind_err (to_unit d outunit) (\<lambda>cdelt_out. Inr (crval_out, cdelt_out)))))
      | _ \<Rightarrow>
          bind_err (to_equiv crval_lin2 outunit [Spectral]) (\<lambda>crval_out.
          bind_err (to_equiv cdelt_lin2 outunit [Spectral]) (\<lambda>cdelt_out.
            Inr (crval_out, cdelt_out))))"

text \<open>The two checks of lines 345 to 351.\<close>

definition check_output :: "quantity \<Rightarrow> quantity \<Rightarrow> error + (quantity \<times> quantity)" where
  "check_output crval_out cdelt_out =
     (if qunit crval_out \<noteq> qunit cdelt_out then Inl UnitMismatch
      else if qval cdelt_out = 0 then Inl ZeroIncrement
      else Inr (crval_out, cdelt_out))"

text \<open>
  Lines 286 to 351: from the plan, the reference value and the increment of the input and
  the rest value that anchors the conversion to the reference value and the increment of
  the output.
\<close>

definition convert_values ::
    "plan \<Rightarrow> quantity \<Rightarrow> quantity \<Rightarrow> unit \<Rightarrow> quantity option \<Rightarrow> error + (quantity \<times> quantity)" where
  "convert_values p crval_in cdelt_in outunit ref_value =
     (case p of (in_spec_ctype, lin_cunit, in_vcequiv, out_type, out_lin_cunit, out_vcequiv) \<Rightarrow>
        bind_err (air_pass in_spec_ctype crval_in cdelt_in) (\<lambda>(in_spec_ctype', crval_in', cdelt_in').
        bind_err (to_linear in_spec_ctype' crval_in' cdelt_in' lin_cunit in_vcequiv ref_value)
          (\<lambda>(crval_lin1, cdelt_lin1).
        bind_err
          (linear_to_linear crval_lin1 cdelt_lin1 lin_cunit out_lin_cunit out_type in_vcequiv
             out_vcequiv ref_value)
          (\<lambda>(crval_lin2, cdelt_lin2).
        bind_err (from_linear crval_lin2 cdelt_lin2 outunit out_type out_vcequiv ref_value)
          (\<lambda>(crval_out, cdelt_out). check_output crval_out cdelt_out)))))"

text \<open>
  Lines 354 to 363, on the copy: the increment goes to the CD matrix when the object has
  one and to \<open>cdelt\<close> otherwise; then the unit, the reference value and the ctype.
\<close>

definition write_axis :: "'a wcs_scheme \<Rightarrow> quantity \<Rightarrow> quantity \<Rightarrow> string \<Rightarrow> 'a wcs_scheme" where
  "write_axis newwcs crval_out cdelt_out out_ctype =
     (let s = spec newwcs;
          w1 = (case cd newwcs of
                  Some m \<Rightarrow> newwcs\<lparr>cd := Some (m[s := (m ! s)[s := qval cdelt_out]])\<rparr>
                | None \<Rightarrow> newwcs\<lparr>cdelt := (cdelt newwcs)[s := qval cdelt_out]\<rparr>);
          w2 = w1\<lparr>cunit := (cunit w1)[s := qunit cdelt_out]\<rparr>;
          w3 = w2\<lparr>crval := (crval w2)[s := qval crval_out]\<rparr>
      in w3\<lparr>ctype := (ctype w3)[s := out_ctype]\<rparr>)"

text \<open>Lines 364 to 370, on the copy: the rest value goes to the rest field of its own kind.\<close>

definition write_rest :: "'a wcs_scheme \<Rightarrow> quantity option \<Rightarrow> error + 'a wcs_scheme" where
  "write_rest newwcs rest_value =
     (case rest_value of
        None \<Rightarrow> Inr newwcs
      | Some rv \<Rightarrow>
          if parse_phys_type (qunit rv) = Frequency then
            bind_err (to_unit rv Hz) (\<lambda>q. Inr (newwcs\<lparr>restfrq := qval q\<rparr>))
          else if parse_phys_type (qunit rv) = Length then
            bind_err (to_unit rv metre) (\<lambda>q. Inr (newwcs\<lparr>restwav := qval q\<rparr>))
          else Inl RestValueUnit)"

text \<open>
  Lines 353 to 372: the copy is allocated and set, then written and returned. When the
  rest value is refused the copy has been written already, and is dropped.
\<close>

definition commit ::
    "'a heap \<Rightarrow> nat \<Rightarrow> quantity \<Rightarrow> quantity \<Rightarrow> string \<Rightarrow> quantity option
     \<Rightarrow> 'a heap \<times> (error + nat)" where
  "commit h mywcs crval_out cdelt_out out_ctype rest_value =
     (case deepcopy h mywcs of
        Inl e \<Rightarrow> (h, Inl e)
      | Inr (h1, newwcs) \<Rightarrow>
          let w = write_axis (h1 ! newwcs) crval_out cdelt_out out_ctype in
          (case write_rest w rest_value of
             Inl e \<Rightarrow> (h1[newwcs := w], Inl e)
           | Inr w' \<Rightarrow> (h1[newwcs := w'], Inr newwcs)))"

text \<open>
  Lines 241 to 372, the part of \<open>convert_spectral_axis\<close> after the branch on a
  conversion from speed to speed. The reference value is read from the object as it is
  (line 280); the increment is read through the pixel scale matrix (line 283), which sets
  the object in place; the unit \<open>inunit\<close> of both was read before (line 215 or 226).
\<close>

definition convert_tail ::
    "'a heap \<Rightarrow> nat \<Rightarrow> unit \<Rightarrow> unit \<Rightarrow> string \<Rightarrow> quantity option \<Rightarrow> quantity option
     \<Rightarrow> 'a heap \<times> (error + nat)" where
  "convert_tail h mywcs inunit outunit out_ctype rest_value wcs_rv =
     (case resolve_rest_value inunit outunit rest_value wcs_rv of
        Inl e \<Rightarrow> (h, Inl e)
      | Inr (rest_value', ref_value) \<Rightarrow>
          (case axis_plan (h ! mywcs) outunit out_ctype of
             Inl e \<Rightarrow> (h, Inl e)
           | Inr p \<Rightarrow>
               let crval_in = \<lparr>qval = crval (h ! mywcs) ! spec (h ! mywcs), qunit = inunit\<rparr> in
               (case pixel_scale_matrix h mywcs of
                  (h1, Inl e) \<Rightarrow> (h1, Inl e)
                | (h1, Inr scale_spec) \<Rightarrow>
                    let cdelt_in = \<lparr>qval = scale_spec, qunit = inunit\<rparr> in
                    (case convert_values p crval_in cdelt_in outunit ref_value of
                       Inl e \<Rightarrow> (h1, Inl e)
                     | Inr (crval_out, cdelt_out) \<Rightarrow>
                         commit h1 mywcs crval_out cdelt_out out_ctype rest_value'))))"

text \<open>
  \<open>convert_spectral_axis(mywcs, outunit, out_ctype, rest_value)\<close>, on a store \<open>h\<close> and
  the address \<open>mywcs\<close>. The result is the store after the call and the address of the new
  object, or the error. The two tests of lines 220 to 228 differ in the rest value of the
  object only, so the model branches on it first. In the recursive call the output unit is
  the unit of the rest value and the output ctype is the entry of \<open>ALL_CTYPES\<close> for it.
\<close>

function convert_spectral_axis ::
    "'a heap \<Rightarrow> nat \<Rightarrow> unit \<Rightarrow> string \<Rightarrow> quantity option \<Rightarrow> 'a heap \<times> (error + nat)" where
  "convert_spectral_axis h mywcs outunit out_ctype rest_value =
     (let inunit = cunit (h ! mywcs) ! spec (h ! mywcs) in
      case get_rest_value_from_wcs (h ! mywcs) of
        Some wcs_rv \<Rightarrow>
          if parse_phys_type inunit = Speed \<and> parse_phys_type outunit = Speed then
            (case lookup ALL_CTYPES (parse_phys_type (qunit wcs_rv)) of
               Inl e \<Rightarrow> (h, Inl e)
             | Inr e \<Rightarrow>
                 (case convert_spectral_axis h mywcs (qunit wcs_rv) (tag_of e) (Some wcs_rv) of
                    (h1, Inl err) \<Rightarrow> (h1, Inl err)
                  | (h1, Inr mywcs1) \<Rightarrow>
                      convert_tail h1 mywcs1 (cunit (h1 ! mywcs1) ! spec (h1 ! mywcs1)) outunit
                        out_ctype rest_value (Some wcs_rv)))
          else convert_tail h mywcs inunit outunit out_ctype rest_value (Some wcs_rv)
      | None \<Rightarrow>
          if parse_phys_type inunit = Speed \<and> parse_phys_type outunit = Speed then
            (case deepcopy h mywcs of
               Inl e \<Rightarrow> (h, Inl e)
             | Inr (h1, newwcs) \<Rightarrow> (h1, Inr newwcs))
          else convert_tail h mywcs inunit outunit out_ctype rest_value None)"
  by pat_completeness auto
termination
  by (relation "measure (\<lambda>(h, mywcs, outunit, out_ctype, rest_value).
                  if parse_phys_type outunit = Speed then 1 else 0)")
     (auto simp: get_rest_value_from_wcs_def parse_phys_type_def Hz_def metre_def
           split: if_splits)

declare convert_spectral_axis.simps [simp del]

section \<open>Notions the properties are stated with\<close>

text \<open>An object is set when setting it changes nothing and raises nothing.\<close>

definition is_set :: "'a wcs_scheme \<Rightarrow> bool" where
  "is_set w = (wcsset w = Inr w)"



text \<open>
  The object \<open>w\<close> with the entries of the spectral axis overwritten: the increment (in
  the CD matrix when there is one, in \<open>cdelt\<close> otherwise), the unit, the reference value
  and the ctype, all at the index \<open>spec w\<close>, and the two rest fields. Every other entry
  and the extension part are those of \<open>w\<close>.
\<close>

definition set_spectral ::
    "'a wcs_scheme \<Rightarrow> real \<Rightarrow> unit \<Rightarrow> real \<Rightarrow> string \<Rightarrow> real \<Rightarrow> real \<Rightarrow> 'a wcs_scheme" where
  "set_spectral w inc un rv ct rf rw =
     w\<lparr>cd := map_option (\<lambda>m. m[spec w := (m ! spec w)[spec w := inc]]) (cd w),
       cdelt := (if cd w = None then (cdelt w)[spec w := inc] else cdelt w),
       cunit := (cunit w)[spec w := un],
       crval := (crval w)[spec w := rv],
       ctype := (ctype w)[spec w := ct],
       restfrq := rf, restwav := rw\<rparr>"


text \<open>The spectral axis is an axis of the object: its index is within \<open>cdelt\<close> and the CD matrix.\<close>

definition axis_in_range :: "'a wcs_scheme \<Rightarrow> bool" where
  "axis_in_range w =
     (spec w < length (cdelt w) \<and>
      (case cd w of Some m \<Rightarrow> spec w < length m \<and> spec w < length (m ! spec w) | None \<Rightarrow> True))"

text \<open>
  The rest value that the commit step sees: the supplied one, or the one of the object
  when the output is a speed and none is supplied.
\<close>

definition rest_used :: "unit \<Rightarrow> quantity option \<Rightarrow> quantity option \<Rightarrow> quantity option" where
  "rest_used outunit rest_value wcs_rv =
     (if parse_phys_type outunit = Speed \<and> rest_value = None then wcs_rv else rest_value)"

text \<open>The two rest fields after the commit step, from the rest value it sees and the field before.\<close>

definition restfrq_after :: "quantity option \<Rightarrow> real \<Rightarrow> real" where
  "restfrq_after rest e =
     (case rest of
        Some rv \<Rightarrow> if parse_phys_type (qunit rv) = Frequency then si rv else e
      | None \<Rightarrow> e)"

definition restwav_after :: "quantity option \<Rightarrow> real \<Rightarrow> real" where
  "restwav_after rest e =
     (case rest of
        Some rv \<Rightarrow> if parse_phys_type (qunit rv) = Length then si rv else e
      | None \<Rightarrow> e)"

text \<open>At most one of the two rest fields is set.\<close>

definition one_rest_at_most :: "'a wcs_scheme \<Rightarrow> bool" where
  "one_rest_at_most w = (restfrq w = 0 \<or> restwav w = 0)"

text \<open>
  The conversion from speed to speed on an object with no rest value, which lines 227 to
  232 answer with a copy.
\<close>

definition copy_case :: "'a wcs_scheme \<Rightarrow> unit \<Rightarrow> bool" where
  "copy_case w outunit =
     (parse_phys_type (cunit w ! spec w) = Speed \<and> parse_phys_type outunit = Speed \<and>
      get_rest_value_from_wcs w = None)"

subsection \<open>Example objects\<close>

definition km_per_s :: unit where
  "km_per_s = \<lparr>scale = 1000, mpow = 1, spow = -1\<rparr>"

definition GHz :: unit where
  "GHz = \<lparr>scale = 1000000000, mpow = 0, spow = -1\<rparr>"

text \<open>A Stokes axis and a frequency axis, with a rest wavelength of 3 m.\<close>

definition freq_cube_restwav :: wcs where
  "freq_cube_restwav =
     \<lparr>spec = 1, crval = [0, 100], cdelt = [1, 2], cunit = [dimensionless, Hz],
      ctype = [''STOKES'', ''FREQ''], cd = None, pc = [[1, 0], [0, 1]],
      restfrq = 0, restwav = 3\<rparr>"

text \<open>A Stokes axis and a frequency axis at 299792458 Hz, with no rest value.\<close>

definition freq_cube :: wcs where
  "freq_cube =
     \<lparr>spec = 1, crval = [0, 299792458], cdelt = [1, 299792458], cunit = [dimensionless, Hz],
      ctype = [''STOKES'', ''FREQ''], cd = None, pc = [[1, 0], [0, 1]],
      restfrq = 0, restwav = 0\<rparr>"

text \<open>The same cube on a wavelength axis.\<close>

definition wave_cube :: wcs where
  "wave_cube =
     \<lparr>spec = 1, crval = [0, 1], cdelt = [1, -1], cunit = [dimensionless, metre],
      ctype = [''STOKES'', ''WAVE-F2W''], cd = None, pc = [[1, 0], [0, 1]],
      restfrq = 0, restwav = 0\<rparr>"

text \<open>
  A radio velocity axis with a rest frequency of 10 Hz and its increment in a CD matrix,
  and its frequency form.
\<close>

definition vrad_axis :: wcs where
  "vrad_axis =
     \<lparr>spec = 0, crval = [0], cdelt = [1], cunit = [m_per_s], ctype = [''VRAD''],
      cd = Some [[299792458]], pc = [[1]], restfrq = 10, restwav = 0\<rparr>"

definition vrad_axis_as_freq :: wcs where
  "vrad_axis_as_freq =
     \<lparr>spec = 0, crval = [10], cdelt = [1], cunit = [Hz], ctype = [''FREQ''],
      cd = Some [[-10]], pc = [[1]], restfrq = 10, restwav = 0\<rparr>"

text \<open>Velocity axes with no rest value; the second has a zero increment.\<close>

definition velo_axis :: wcs where
  "velo_axis =
     \<lparr>spec = 0, crval = [5], cdelt = [2], cunit = [m_per_s], ctype = [''VELO''],
      cd = None, pc = [[1]], restfrq = 0, restwav = 0\<rparr>"

definition velo_axis_flat :: wcs where
  "velo_axis_flat =
     \<lparr>spec = 0, crval = [5], cdelt = [0], cunit = [m_per_s], ctype = [''VELO''],
      cd = None, pc = [[1]], restfrq = 0, restwav = 0\<rparr>"

text \<open>An optical velocity axis in kilometres per second, and the same axis in SI units.\<close>

definition vopt_axis :: wcs where
  "vopt_axis =
     \<lparr>spec = 0, crval = [7], cdelt = [3], cunit = [km_per_s], ctype = [''VOPT''],
      cd = None, pc = [[1]], restfrq = 0, restwav = 0\<rparr>"

definition vopt_axis_si :: wcs where
  "vopt_axis_si =
     \<lparr>spec = 0, crval = [7000], cdelt = [3000], cunit = [m_per_s], ctype = [''VOPT''],
      cd = None, pc = [[1]], restfrq = 0, restwav = 0\<rparr>"

text \<open>
  A velocity axis and a Stokes axis with the CD matrix that exchanges the two pixel axes:
  the matrix is not singular, and its entry for the velocity axis is 0.
\<close>

definition velo_swapped_cube :: wcs where
  "velo_swapped_cube =
     \<lparr>spec = 0, crval = [5, 0], cdelt = [1, 1], cunit = [m_per_s, dimensionless],
      ctype = [''VELO'', ''STOKES''], cd = Some [[0, 1], [1, 0]], pc = [[1, 0], [0, 1]],
      restfrq = 0, restwav = 0\<rparr>"

text \<open>
  A frequency axis in GHz that has not been set, the same axis set, and what a conversion
  of the first to Hz returns.
\<close>

definition ghz_axis :: wcs where
  "ghz_axis =
     \<lparr>spec = 0, crval = [100], cdelt = [2], cunit = [GHz], ctype = [''FREQ''],
      cd = None, pc = [[1]], restfrq = 0, restwav = 0\<rparr>"

definition ghz_axis_set :: wcs where
  "ghz_axis_set =
     \<lparr>spec = 0, crval = [100000000000], cdelt = [2000000000], cunit = [Hz], ctype = [''FREQ''],
      cd = None, pc = [[1]], restfrq = 0, restwav = 0\<rparr>"

definition ghz_axis_as_hz :: wcs where
  "ghz_axis_as_hz =
     \<lparr>spec = 0, crval = [100000000000], cdelt = [2000000000000000000], cunit = [Hz],
      ctype = [''FREQ''], cd = None, pc = [[1]], restfrq = 0, restwav = 0\<rparr>"

text \<open>
  A wavelength axis, its form as a relativistic velocity axis for a rest wavelength of 3 m,
  and what the way back gives.
\<close>

definition wave_axis :: wcs where
  "wave_axis =
     \<lparr>spec = 0, crval = [8], cdelt = [73], cunit = [metre], ctype = [''WAVE''],
      cd = None, pc = [[1]], restfrq = 0, restwav = 0\<rparr>"

definition wave_axis_as_velo :: wcs where
  "wave_axis_as_velo =
     \<lparr>spec = 0, crval = [225871030], cdelt = [1182742848], cunit = [m_per_s],
      ctype = [''VELO-W2V''], cd = None, pc = [[1]], restfrq = 0, restwav = 3\<rparr>"

definition wave_axis_back :: wcs where
  "wave_axis_back =
     \<lparr>spec = 0, crval = [8], cdelt = [657 / 64], cunit = [metre], ctype = [''WAVE''],
      cd = None, pc = [[1]], restfrq = 0, restwav = 3\<rparr>"

text \<open>A frequency axis, and its form as a relativistic velocity axis for a rest frequency of 8 Hz.\<close>

definition freq_axis :: wcs where
  "freq_axis =
     \<lparr>spec = 0, crval = [3], cdelt = [73], cunit = [Hz], ctype = [''FREQ''],
      cd = None, pc = [[1]], restfrq = 0, restwav = 0\<rparr>"

definition freq_axis_as_velo :: wcs where
  "freq_axis_as_velo =
     \<lparr>spec = 0, crval = [225871030], cdelt = [-3153980928], cunit = [m_per_s],
      ctype = [''VELO-F2V''], cd = None, pc = [[1]], restfrq = 8, restwav = 0\<rparr>"

section \<open>Properties\<close>

subsection \<open>Evaluating the tables\<close>

lemmas unit_defs = Hz_def metre_def m_per_s_def parse_phys_type_def

lemmas table_defs =
  LINEAR_CUNIT_DICT_def WCS_UNIT_DICT_def PHYSICAL_TYPE_TO_CHAR_def PHYSICAL_TYPE_TO_CTYPE_def
  CTYPE_TO_PHYSICALTYPE_def CTYPE_CHAR_TO_PHYSICALTYPE_def ALL_CTYPES_def PHYS_UNIT_DICT_def

lemmas resolver_defs =
  determine_ctype_from_vconv_def in_physchar_of_def bind_err_def lookup_def py_index_def
  format_ctype_def tag_of_def by_convention_def

lemmas quantity_defs =
  to_unit_def to_equiv_def same_dims_def si_def qmul_def qdiv_def qneg_def qsquare_def qsqrt_def
  qtimes_def qadd_def qsub_def umul_def udiv_def usqrt_def c_light_def c_value_def
  spectral_fn_def rest_as_def doppler_def rest_to_def wavenumber_def

subsection \<open>Setting an object\<close>

lemma wcs_units_fields:
  assumes "wcs_units w = Inr w'"
  shows "spec w' = spec w" "ctype w' = ctype w" "pc w' = pc w" "restfrq w' = restfrq w"
    "restwav w' = restwav w" "wcs.more w' = wcs.more w"
    "length (cdelt w') = length (cdelt w)" "length (cunit w') = length (cunit w)"
    "(cd w' = None) = (cd w = None)"
  using assms
  by (auto simp: wcs_units_def Let_def split: option.splits if_splits)

lemma wcs_units_in_range:
  assumes "wcs_units w = Inr w'"
  shows "axis_in_range w' = axis_in_range w"
proof (cases "cd w")
  case None
  then show ?thesis using assms
    by (auto simp: wcs_units_def Let_def axis_in_range_def split: option.splits if_splits)
next
  case (Some m)
  have *: "spec w < length (m[spec w := f (m ! spec w)]) \<and>
           spec w < length (m[spec w := map g (m ! spec w)] ! spec w) \<longleftrightarrow>
           spec w < length m \<and> spec w < length (m ! spec w)" for f g
    by (cases "spec w < length m") auto
  show ?thesis using assms Some *
    by (auto simp: wcs_units_def Let_def axis_in_range_def split: option.splits if_splits)
qed

lemma wcs_linear_fields:
  "spec (wcs_linear w) = spec w" "ctype (wcs_linear w) = ctype w" "pc (wcs_linear w) = pc w"
  "restfrq (wcs_linear w) = restfrq w" "restwav (wcs_linear w) = restwav w"
  "cd (wcs_linear w) = cd w" "cunit (wcs_linear w) = cunit w" "crval (wcs_linear w) = crval w"
  "wcs.more (wcs_linear w) = wcs.more w"
  "length (cdelt (wcs_linear w)) = length (cdelt w)"
  by (simp_all add: wcs_linear_def split: option.splits)

lemma wcs_linear_in_range: "axis_in_range (wcs_linear w) = axis_in_range w"
  by (simp add: axis_in_range_def wcs_linear_fields split: option.splits)

lemma wcsset_cases:
  assumes "wcsset w = Inr w'"
  obtains w1 where "wcs_units w = Inr w1" "w' = wcs_linear w1"
  using assms by (auto simp: wcsset_def bind_err_def Let_def split: sum.splits if_splits)

lemma wcsset_rest:
  assumes "wcsset w = Inr w'"
  shows "restfrq w' = restfrq w" "restwav w' = restwav w" "spec w' = spec w"
  using assms by (auto elim!: wcsset_cases simp: wcs_linear_fields wcs_units_fields)

lemma wcsset_in_range:
  assumes "wcsset w = Inr w'"
  shows "axis_in_range w' = axis_in_range w"
  using assms by (auto elim!: wcsset_cases simp: wcs_linear_in_range wcs_units_in_range)

subsection \<open>The commit step\<close>

lemma write_axis_form:
  "write_axis w cv dv oc = set_spectral w (qval dv) (qunit dv) (qval cv) oc (restfrq w) (restwav w)"
  by (cases "cd w") (simp_all add: write_axis_def set_spectral_def Let_def)





lemma set_spectral_in_range:
  "axis_in_range (set_spectral w a b c d e f) = axis_in_range w"
  by (cases "cd w") (auto simp add: set_spectral_def axis_in_range_def)

lemma set_spectral_rest:
  "restfrq (set_spectral w a b c d e f) = e" "restwav (set_spectral w a b c d e f) = f"
  by (simp_all add: set_spectral_def)


lemma write_rest_form:
  assumes "write_rest (set_spectral w a b c d e f) rest = Inr w'"
  shows "w' = set_spectral w a b c d (restfrq_after rest e) (restwav_after rest f)"
  using assms
  by (auto simp: write_rest_def bind_err_def to_unit_def set_spectral_def unit_defs si_def same_dims_def
      restfrq_after_def restwav_after_def
      split: option.splits if_splits)

lemma commit_eq:
  "commit h r cv dv oc rest =
     (case wcsset (h ! r) of
        Inl e \<Rightarrow> (h, Inl e)
      | Inr w \<Rightarrow>
          (case write_rest (write_axis w cv dv oc) rest of
             Inl e \<Rightarrow> (h @ [write_axis w cv dv oc], Inl e)
           | Inr w' \<Rightarrow> (h @ [w'], Inr (length h))))"
  by (simp add: commit_def deepcopy_def Let_def split: sum.splits)

lemma resolve_rest_value_fst:
  "resolve_rest_value inunit outunit rest wrv = Inr (rest', ref) \<Longrightarrow> rest' = rest_used outunit rest wrv"
  by (auto simp: resolve_rest_value_def rest_used_def bind_err_def split: option.splits if_splits sum.splits)

lemma apply_equivalencies_unit:
  "apply_equivalencies eqs q u = Inr q' \<Longrightarrow> qunit q' = u"
  by (induction eqs) (auto simp: bind_err_def split: option.splits sum.splits)

lemma to_equiv_unit: "to_equiv q u eqs = Inr q' \<Longrightarrow> qunit q' = u"
  by (auto simp: to_equiv_def apply_equivalencies_unit split: if_splits)

lemma to_unit_unit: "to_unit q u = Inr q' \<Longrightarrow> qunit q' = u"
  by (auto simp: to_unit_def split: if_splits)

lemma from_linear_unit:
  "from_linear c2 d2 outunit ot ov ref = Inr (cv, dv) \<Longrightarrow> qunit dv = outunit"
  by (auto simp: from_linear_def bind_err_def to_equiv_unit to_unit_unit
           split: option.splits sum.splits prod.splits)

lemma convert_values_out:
  assumes "convert_values p ci di outunit ref = Inr (cv, dv)"
  shows "qval dv \<noteq> 0" "qunit dv = outunit"
  using assms
  by (auto simp: convert_values_def bind_err_def check_output_def from_linear_unit
           split: sum.splits prod.splits if_splits)

subsection \<open>The paths through the axis converter\<close>

lemma pixel_scale_matrix_cases:
  assumes "pixel_scale_matrix h r = (h1, res)"
  shows "(h1 = h \<and> (\<exists>e. res = Inl e \<and> wcsset (h ! r) = Inl e)) \<or>
         (\<exists>w2. wcsset (h ! r) = Inr w2 \<and> h1 = h[r := w2] \<and> res = Inr (pixel_scale_spec w2))"
  using assms by (auto simp: pixel_scale_matrix_def split: sum.splits)




lemma convert_tail_steps:
  assumes "convert_tail h r inunit outunit oc rest wrv = (h', Inr r')"
  obtains rest' ref p h1 ps cv dv where
    "resolve_rest_value inunit outunit rest wrv = Inr (rest', ref)"
    "pixel_scale_matrix h r = (h1, Inr ps)"
    "convert_values p \<lparr>qval = crval (h ! r) ! spec (h ! r), qunit = inunit\<rparr>
       \<lparr>qval = ps, qunit = inunit\<rparr> outunit ref = Inr (cv, dv)"
    "commit h1 r cv dv oc rest' = (h', Inr r')"
proof -
  obtain rest' ref where rr: "resolve_rest_value inunit outunit rest wrv = Inr (rest', ref)"
    using assms by (cases "resolve_rest_value inunit outunit rest wrv") (auto simp: convert_tail_def)
  obtain p where p: "axis_plan (h ! r) outunit oc = Inr p"
    using assms rr by (cases "axis_plan (h ! r) outunit oc") (auto simp: convert_tail_def)
  obtain h1 pr where ps0: "pixel_scale_matrix h r = (h1, pr)"
    by (cases "pixel_scale_matrix h r")
  obtain ps where ps: "pr = Inr ps"
    using assms rr p ps0 by (cases pr) (auto simp: convert_tail_def Let_def)
  let ?cv = "convert_values p \<lparr>qval = crval (h ! r) ! spec (h ! r), qunit = inunit\<rparr>
       \<lparr>qval = ps, qunit = inunit\<rparr> outunit ref"
  obtain cv dv where cvs: "?cv = Inr (cv, dv)"
    using assms rr p ps0 ps by (cases ?cv) (auto simp: convert_tail_def Let_def)
  have "commit h1 r cv dv oc rest' = (h', Inr r')"
    using assms rr p ps0 ps cvs by (simp add: convert_tail_def Let_def)
  with rr ps0 ps cvs that show ?thesis by blast
qed

lemma commit_Inr:
  assumes "commit h r cv dv oc rest = (h', Inr r')"
  obtains X w' where "wcsset (h ! r) = Inr X" "write_rest (write_axis X cv dv oc) rest = Inr w'"
    "h' = h @ [w']" "r' = length h"
  using assms by (auto simp: commit_eq split: sum.splits)

lemma convert_tail_Inr:
  assumes "convert_tail h r inunit outunit oc rest wrv = (h', Inr r')"
  shows "\<exists>w2 X inc rv. wcsset (h ! r) = Inr w2 \<and> wcsset (h[r := w2] ! r) = Inr X \<and>
           inc \<noteq> 0 \<and> r' = length h \<and>
           h' = h[r := w2] @ [set_spectral X inc outunit rv oc
                      (restfrq_after (rest_used outunit rest wrv) (restfrq (h ! r)))
                      (restwav_after (rest_used outunit rest wrv) (restwav (h ! r)))]"
proof -
  from assms obtain rest' ref p h1 ps cv dv where
    rr: "resolve_rest_value inunit outunit rest wrv = Inr (rest', ref)" and
    ps: "pixel_scale_matrix h r = (h1, Inr ps)" and
    cvs: "convert_values p \<lparr>qval = crval (h ! r) ! spec (h ! r), qunit = inunit\<rparr>
            \<lparr>qval = ps, qunit = inunit\<rparr> outunit ref = Inr (cv, dv)" and
    cm: "commit h1 r cv dv oc rest' = (h', Inr r')"
    by (rule convert_tail_steps)
  from pixel_scale_matrix_cases [OF ps] obtain w2 where
    w2: "wcsset (h ! r) = Inr w2" and h1: "h1 = h[r := w2]" by auto
  from cm obtain X w' where
    X: "wcsset (h1 ! r) = Inr X" and
    wr: "write_rest (write_axis X cv dv oc) rest' = Inr w'" and
    res: "h' = h1 @ [w']" "r' = length h1"
    by (rule commit_Inr)
  note out = convert_values_out [OF cvs]
  have r: "rest' = rest_used outunit rest wrv" using rr by (rule resolve_rest_value_fst)
  have h1r: "h1 ! r = w2 \<or> h1 ! r = h ! r"
    using h1 by (cases "r < length h") (simp_all add: list_update_beyond)
  have "restfrq X = restfrq (h ! r) \<and> restwav X = restwav (h ! r)"
    using h1r wcsset_rest [OF X] wcsset_rest [OF w2] by auto
  then have "w' = set_spectral X (qval dv) outunit (qval cv) oc
               (restfrq_after rest' (restfrq (h ! r))) (restwav_after rest' (restwav (h ! r)))"
    using write_rest_form [OF wr [unfolded write_axis_form]] out by simp
  moreover have "wcsset (h[r := w2] ! r) = Inr X" using X h1 by simp
  moreover have "r' = length h" using res h1 by simp
  ultimately show ?thesis using out(1) r res(1) w2 h1 by blast
qed

lemma convert_direct:
  assumes "\<not> (parse_phys_type (cunit (h ! r) ! spec (h ! r)) = Speed \<and> parse_phys_type outunit = Speed)"
  shows "convert_spectral_axis h r outunit oc rest =
           convert_tail h r (cunit (h ! r) ! spec (h ! r)) outunit oc rest
             (get_rest_value_from_wcs (h ! r))"
  using assms by (subst convert_spectral_axis.simps) (auto simp: Let_def split: option.splits)

lemma convert_copy:
  assumes "copy_case (h ! r) outunit"
  shows "convert_spectral_axis h r outunit oc rest =
           (case wcsset (h ! r) of
              Inl e \<Rightarrow> (h, Inl e)
            | Inr w \<Rightarrow> (h @ [w], Inr (length h)))"
  using assms
  by (subst convert_spectral_axis.simps)
     (simp add: Let_def deepcopy_def copy_case_def split: sum.splits)

lemma rest_value_tag:
  "get_rest_value_from_wcs w = Some rv \<Longrightarrow>
     \<exists>e. lookup ALL_CTYPES (parse_phys_type (qunit rv)) = Inr e \<and>
         parse_phys_type (qunit rv) \<noteq> Speed \<and> scale (qunit rv) = 1"
  by (auto simp: get_rest_value_from_wcs_def lookup_def ALL_CTYPES_def unit_defs split: if_splits)

lemma convert_anchor:
  assumes "parse_phys_type (cunit (h ! r) ! spec (h ! r)) = Speed" "parse_phys_type outunit = Speed"
    and "get_rest_value_from_wcs (h ! r) = Some wrv"
  shows "convert_spectral_axis h r outunit oc rest =
           (case lookup ALL_CTYPES (parse_phys_type (qunit wrv)) of
              Inl e \<Rightarrow> (h, Inl e)
            | Inr e \<Rightarrow>
               (case convert_tail h r (cunit (h ! r) ! spec (h ! r)) (qunit wrv) (tag_of e)
                       (Some wrv) (Some wrv) of
                  (h1, Inl err) \<Rightarrow> (h1, Inl err)
                | (h1, Inr r1) \<Rightarrow>
                    convert_tail h1 r1 (cunit (h1 ! r1) ! spec (h1 ! r1)) outunit oc rest (Some wrv)))"
proof -
  from rest_value_tag [OF assms(3)] obtain e where
    e: "lookup ALL_CTYPES (parse_phys_type (qunit wrv)) = Inr e" and
    ns: "parse_phys_type (qunit wrv) \<noteq> Speed" by blast
  have inner: "convert_spectral_axis h r (qunit wrv) (tag_of e) (Some wrv) =
      convert_tail h r (cunit (h ! r) ! spec (h ! r)) (qunit wrv) (tag_of e) (Some wrv) (Some wrv)"
    using ns assms(3) by (simp add: convert_direct)
  show ?thesis
    by (subst convert_spectral_axis.simps) (simp add: Let_def assms e inner)
qed

lemma own_rest_value_kept:
  assumes "get_rest_value_from_wcs w = Some wrv"
  shows "restfrq_after (Some wrv) (restfrq w) = restfrq w"
    and "restwav_after (Some wrv) (restwav w) = restwav w"
  using assms
  by (auto simp: get_rest_value_from_wcs_def restfrq_after_def restwav_after_def unit_defs si_def
           split: if_splits)

text \<open>The three ways through the function.\<close>

lemma convert_paths:
  assumes "convert_spectral_axis h r outunit oc rest = (h', res)"
  obtains
    (direct) "\<not> (parse_phys_type (cunit (h ! r) ! spec (h ! r)) = Speed \<and> parse_phys_type outunit = Speed)"
       "convert_tail h r (cunit (h ! r) ! spec (h ! r)) outunit oc rest
             (get_rest_value_from_wcs (h ! r)) = (h', res)"
  | (copy) "copy_case (h ! r) outunit"
       "(case wcsset (h ! r) of Inl e \<Rightarrow> (h, Inl e) | Inr w \<Rightarrow> (h @ [w], Inr (length h))) = (h', res)"
  | (anchor_error) wrv tag e where "get_rest_value_from_wcs (h ! r) = Some wrv"
       "parse_phys_type outunit = Speed"
       "convert_tail h r (cunit (h ! r) ! spec (h ! r)) (qunit wrv) tag (Some wrv) (Some wrv) = (h', Inl e)"
       "res = Inl e"
  | (anchor) wrv tag h1 r1 where "get_rest_value_from_wcs (h ! r) = Some wrv"
       "parse_phys_type outunit = Speed"
       "convert_tail h r (cunit (h ! r) ! spec (h ! r)) (qunit wrv) tag (Some wrv) (Some wrv) = (h1, Inr r1)"
       "convert_tail h1 r1 (cunit (h1 ! r1) ! spec (h1 ! r1)) outunit oc rest (Some wrv) = (h', res)"
proof (cases "parse_phys_type (cunit (h ! r) ! spec (h ! r)) = Speed \<and> parse_phys_type outunit = Speed")
  case False
  then show ?thesis using assms direct by (simp add: convert_direct)
next
  case True
  show ?thesis
  proof (cases "get_rest_value_from_wcs (h ! r)")
    case None
    then have c: "copy_case (h ! r) outunit" using True by (simp add: copy_case_def)
    then show ?thesis using assms copy by (simp add: convert_copy)
  next
    case (Some wrv)
    from rest_value_tag [OF Some] obtain e where
      e: "lookup ALL_CTYPES (parse_phys_type (qunit wrv)) = Inr e" by blast
    obtain h1 res1 where
      t1: "convert_tail h r (cunit (h ! r) ! spec (h ! r)) (qunit wrv) (tag_of e) (Some wrv) (Some wrv) = (h1, res1)"
      by (cases "convert_tail h r (cunit (h ! r) ! spec (h ! r)) (qunit wrv) (tag_of e) (Some wrv) (Some wrv)")
    show ?thesis
    proof (cases res1)
      case (Inl err)
      then show ?thesis
        using assms convert_anchor [of h r outunit wrv oc rest] True Some e t1 anchor_error
        by auto
    next
      case (Inr r1)
      then show ?thesis
        using assms convert_anchor [of h r outunit wrv oc rest] True Some e t1 anchor
        by auto
    qed
  qed
qed

subsection \<open>The shape of a result\<close>





lemma convert_tail_shape:
  assumes "convert_tail h r inunit outunit oc rest wrv = (h', Inr r')"
  shows "\<exists>X inc rv. axis_in_range X = axis_in_range (h ! r) \<and> inc \<noteq> 0 \<and>
           r' = length h \<and> length h' = Suc (length h) \<and>
           h' ! r' = set_spectral X inc outunit rv oc
                      (restfrq_after (rest_used outunit rest wrv) (restfrq (h ! r)))
                      (restwav_after (rest_used outunit rest wrv) (restwav (h ! r))) \<and>
           wcsset (h ! r) \<noteq> Inl SingularMatrix \<and>
           (is_set (h ! r) \<longrightarrow> X = h ! r)"
proof -
  from convert_tail_Inr [OF assms] obtain w2 X inc rv where
    w2: "wcsset (h ! r) = Inr w2" and X: "wcsset (h[r := w2] ! r) = Inr X" and
    inc: "inc \<noteq> 0" and r': "r' = length h" and
    h': "h' = h[r := w2] @ [set_spectral X inc outunit rv oc
                      (restfrq_after (rest_used outunit rest wrv) (restfrq (h ! r)))
                      (restwav_after (rest_used outunit rest wrv) (restwav (h ! r)))]"
    by blast
  have hr: "h[r := w2] ! r = w2 \<or> h[r := w2] ! r = h ! r"
    by (cases "r < length h") (simp_all add: list_update_beyond)
  have "axis_in_range X = axis_in_range (h ! r)"
    using hr wcsset_in_range [OF X] wcsset_in_range [OF w2] by auto
  moreover have "is_set (h ! r) \<longrightarrow> X = h ! r"
    using hr w2 X by (auto simp: is_set_def)
  ultimately show ?thesis using inc r' h' w2 by (auto simp: nth_append)
qed

lemma convert_shape:
  assumes "convert_spectral_axis h r outunit oc rest = (h', Inr r')"
  shows "length h \<le> r' \<and> r' < length h' \<and>
     (\<exists>X. axis_in_range X = axis_in_range (h ! r) \<and>
        (if copy_case (h ! r) outunit
         then h' ! r' = X \<and> wcsset (h ! r) = Inr X
         else \<exists>inc un rv. inc \<noteq> 0 \<and>
             h' ! r' = set_spectral X inc un rv oc
               (restfrq_after (rest_used outunit rest (get_rest_value_from_wcs (h ! r))) (restfrq (h ! r)))
               (restwav_after (rest_used outunit rest (get_rest_value_from_wcs (h ! r))) (restwav (h ! r)))))"
  using assms
proof (cases rule: convert_paths)
  case direct
  then have nc: "\<not> copy_case (h ! r) outunit" by (auto simp: copy_case_def)
  from convert_tail_shape [OF direct(2)] nc show ?thesis by auto
next
  case copy
  then obtain w where w: "wcsset (h ! r) = Inr w" "h' = h @ [w]" "r' = length h"
    by (auto split: sum.splits)
  then show ?thesis using copy(1) wcsset_in_range [OF w(1)] by auto
next
  case (anchor_error wrv tag e)
  then show ?thesis by simp
next
  case (anchor wrv tag h1 r1)
  then have nc: "\<not> copy_case (h ! r) outunit" by (simp add: copy_case_def)
  from convert_tail_shape [OF anchor(3)] obtain X1 i1 v1 where
    s1: "axis_in_range X1 = axis_in_range (h ! r)" "r1 = length h" "length h1 = Suc (length h)"
        "h1 ! r1 = set_spectral X1 i1 (qunit wrv) v1 tag
                      (restfrq_after (rest_used (qunit wrv) (Some wrv) (Some wrv)) (restfrq (h ! r)))
                      (restwav_after (rest_used (qunit wrv) (Some wrv) (Some wrv)) (restwav (h ! r)))"
    by blast
  have ru: "rest_used (qunit wrv) (Some wrv) (Some wrv) = Some wrv"
    by (simp add: rest_used_def)
  have w1: "h1 ! r1 = set_spectral X1 i1 (qunit wrv) v1 tag (restfrq (h ! r)) (restwav (h ! r))"
    using s1(4) by (simp add: ru own_rest_value_kept [OF anchor(1)])
  from convert_tail_shape [OF anchor(4)] obtain X inc rv where
    s2: "axis_in_range X = axis_in_range (h1 ! r1)" "inc \<noteq> 0" "r' = length h1"
        "length h' = Suc (length h1)"
        "h' ! r' = set_spectral X inc outunit rv oc
                       (restfrq_after (rest_used outunit rest (Some wrv)) (restfrq (h1 ! r1)))
                       (restwav_after (rest_used outunit rest (Some wrv)) (restwav (h1 ! r1)))"
    by blast
  have "axis_in_range X = axis_in_range (h ! r)"
    using s2(1) s1(1) by (simp add: w1 set_spectral_in_range)
  moreover have "h' ! r' = set_spectral X inc outunit rv oc
            (restfrq_after (rest_used outunit rest (Some wrv)) (restfrq (h ! r)))
            (restwav_after (rest_used outunit rest (Some wrv)) (restwav (h ! r)))"
    using s2(5) by (simp add: w1 set_spectral_rest)
  moreover have "length h \<le> r'" "r' < length h'"
    using s1 s2 by simp_all
  ultimately show ?thesis using nc anchor(1) s2(2) by auto
qed




subsection \<open>The ctype resolver\<close>

text \<open>
  C1. On the inputs the specification lists, \<open>determine_ctype_from_vconv\<close> returns the
  listed output: \<open>'VELO-F2V'\<close> with a frequency unit gives \<open>'FREQ'\<close>, with a length unit
  \<open>'WAVE-F2W'\<close>; \<open>'FREQ'\<close> with a speed unit gives \<open>'VRAD'\<close> under the radio convention
  and \<open>'VOPT-F2W'\<close> under the optical one, and fails for want of a convention when none
  is given.
\<close>

theorem determine_ctype_from_vconv_listed:
  "determine_ctype_from_vconv ''VELO-F2V'' Hz None = Inr ''FREQ'' \<and>
   determine_ctype_from_vconv ''VELO-F2V'' metre None = Inr ''WAVE-F2W'' \<and>
   determine_ctype_from_vconv ''FREQ'' m_per_s (Some (VCFun Radio)) = Inr ''VRAD'' \<and>
   determine_ctype_from_vconv ''FREQ'' m_per_s (Some (VCFun Optical)) = Inr ''VOPT-F2W'' \<and>
   determine_ctype_from_vconv ''FREQ'' m_per_s None = Inl MissingConvention"
  by (simp add: resolver_defs table_defs unit_defs)

text \<open>
  C2, as stated, fails: for the composite tag \<open>'VELO-F2V'\<close> the letter the resolver uses
  is \<open>'F'\<close>, which is neither the character at index 7 (\<open>'V'\<close>) nor the seventh
  character (\<open>'2'\<close>).
\<close>

theorem in_physchar_not_position_7:
  "length ''VELO-F2V'' = 8 \<and>
   in_physchar_of ''VELO-F2V'' = Inr ''F'' \<and>
   in_physchar_of ''VELO-F2V'' \<noteq> Inr [''VELO-F2V'' ! 7] \<and>
   in_physchar_of ''VELO-F2V'' \<noteq> Inr [''VELO-F2V'' ! 6]"
  by (simp add: resolver_defs)

text \<open>
  C2, amended. For a composite tag of 8 characters the letter is the character at index 5
  (the sixth character); for a tag of 4 characters it is the letter of the physical type
  of the tag's linear unit: \<open>'F'\<close> for \<open>'VRAD'\<close> and \<open>'FREQ'\<close>, \<open>'W'\<close> for \<open>'VOPT'\<close>,
  \<open>'WAVE'\<close> and \<open>'AWAV'\<close>, \<open>'V'\<close> for \<open>'VELO'\<close>, and a key error for any other tag.
\<close>

theorem in_physchar_index_5:
  assumes "length c8 = 8" and "length c4 = 4"
  shows "in_physchar_of c8 = Inr [c8 ! 5] \<and>
         in_physchar_of c4 =
           (if c4 \<in> {''VRAD'', ''FREQ''} then Inr ''F''
            else if c4 \<in> {''VOPT'', ''WAVE'', ''AWAV''} then Inr ''W''
            else if c4 = ''VELO'' then Inr ''V''
            else Inl KeyError)"
proof -
  have composite: "in_physchar_of c8 = Inr [c8 ! 5]"
    using assms(1) by (simp add: in_physchar_of_def py_index_def)
  have linear: "in_physchar_of c4 =
      bind_err (lookup LINEAR_CUNIT_DICT c4) (\<lambda>lin_cunit.
        lookup PHYSICAL_TYPE_TO_CHAR (parse_phys_type lin_cunit))"
    using assms(2) by (simp add: in_physchar_of_def)
  have short: "c4 \<noteq> ''F''" "c4 \<noteq> ''W''" "c4 \<noteq> ''V''"
    using assms(2) by auto
  have table: "bind_err (lookup LINEAR_CUNIT_DICT c4) (\<lambda>lin_cunit.
        lookup PHYSICAL_TYPE_TO_CHAR (parse_phys_type lin_cunit)) =
      (if c4 \<in> {''VRAD'', ''FREQ''} then Inr ''F''
       else if c4 \<in> {''VOPT'', ''WAVE'', ''AWAV''} then Inr ''W''
       else if c4 = ''VELO'' then Inr ''V''
       else Inl KeyError)"
    using short by (simp add: bind_err_def lookup_def table_defs unit_defs map_add_def)
  show ?thesis
    using composite linear table by simp
qed

theorem in_physchar_index_5_witness:
  "length ''VELO-F2V'' = 8 \<and> length ''VOPT'' = 4 \<and>
   in_physchar_of ''VELO-F2V'' = Inr ''F'' \<and> in_physchar_of ''VOPT'' = Inr ''W''"
  using in_physchar_index_5 [of "''VELO-F2V''" "''VOPT''"] by simp

subsection \<open>The classifier\<close>

text \<open>
  C7, as stated, fails: the one-character string \<open>'F'\<close> has neither 4 nor 8 characters
  and is classified as the radio convention, with no error.
\<close>

theorem determine_vconv_short_ctype:
  "length ''F'' \<noteq> 4 \<and> length ''F'' \<noteq> 8 \<and>
   determine_vconv_from_ctype ''F'' = Inr (Some Radio)"
  by (simp add: determine_vconv_from_ctype_def)

text \<open>
  C7, amended. \<open>determine_vconv_from_ctype\<close> fails with the invalid-length error exactly
  for the strings of 5, 6, 7 or more than 8 characters. A string of at most 4 characters is
  looked up whole and a string of 8 characters by its character at index 7; neither fails.
\<close>

theorem determine_vconv_length_error:
  "(determine_vconv_from_ctype ct = Inl InvalidCtypeLength) = (5 \<le> length ct \<and> length ct \<noteq> 8) \<and>
   (length ct < 5 \<longrightarrow>
      determine_vconv_from_ctype ct = Inr (parse_velocity_convention (VCStr ct))) \<and>
   (length ct = 8 \<longrightarrow>
      determine_vconv_from_ctype ct = Inr (parse_velocity_convention (VCStr [ct ! 7])))"
  by (auto simp add: determine_vconv_from_ctype_def bind_err_def py_index_def)

theorem determine_vconv_length_error_witness:
  "determine_vconv_from_ctype ''FREQ-W2F'' = Inr (Some Radio) \<and>
   determine_vconv_from_ctype ''VOPT'' = Inr (Some Optical) \<and>
   determine_vconv_from_ctype ''VOPT-'' = Inl InvalidCtypeLength"
  using determine_vconv_length_error [of "''FREQ-W2F''"]
        determine_vconv_length_error [of "''VOPT''"]
        determine_vconv_length_error [of "''VOPT-''"]
  by simp

subsection \<open>The derivative transformer\<close>

text \<open>
  C4. Between a length and a frequency, in either direction, \<open>cdelt_derivative\<close> returns
  \<open>- c / reference_value\<^sup>2\<close> times the increment, in the unit of the output physical
  type (the metre or the hertz). The reference value and the increment are quantities of
  the input physical type, in any scale; the flag and the rest value play no part.
\<close>

theorem cdelt_derivative_length_frequency:
  assumes "{intype, outtype} = {Length, Frequency}"
    and "parse_phys_type (qunit ref) = intype" and "parse_phys_type (qunit inc) = intype"
  shows "\<exists>q. cdelt_derivative ref inc intype outtype lin rest = Inr q \<and>
             PHYS_UNIT_DICT outtype = Some (qunit q) \<and>
             si q = - c_value / (si ref)\<^sup>2 * si inc"
proof -
  from assms(1) consider "intype = Length \<and> outtype = Frequency"
    | "intype = Frequency \<and> outtype = Length"
    by (auto simp: doubleton_eq_iff)
  then show ?thesis
  proof cases
    case 1
    then have d: "mpow (qunit ref) = 1" "spow (qunit ref) = 0"
                 "mpow (qunit inc) = 1" "spow (qunit inc) = 0"
      using assms(2,3) by (auto simp: parse_phys_type_def split: if_splits)
    show ?thesis using 1 d
      by (simp add: cdelt_derivative_def bind_err_def lookup_def PHYS_UNIT_DICT_def to_unit_def
          same_dims_def qmul_def qdiv_def qneg_def qsquare_def umul_def udiv_def c_light_def
          unit_defs si_def power2_eq_square insert_commute mult_ac)
  next
    case 2
    then have d: "mpow (qunit ref) = 0" "spow (qunit ref) = -1"
                 "mpow (qunit inc) = 0" "spow (qunit inc) = -1"
      using assms(2,3) by (auto simp: parse_phys_type_def split: if_splits)
    show ?thesis using 2 d
      by (simp add: cdelt_derivative_def bind_err_def lookup_def PHYS_UNIT_DICT_def to_unit_def
          same_dims_def qmul_def qdiv_def qneg_def qsquare_def umul_def udiv_def c_light_def
          unit_defs si_def power2_eq_square insert_commute mult_ac)
  qed
qed

theorem cdelt_derivative_length_frequency_witness:
  "{Frequency, Length} = {Length, Frequency} \<and>
   parse_phys_type (qunit \<lparr>qval = 2, qunit = \<lparr>scale = 1000, mpow = 0, spow = -1\<rparr>\<rparr>) = Frequency \<and>
   (\<exists>q. cdelt_derivative \<lparr>qval = 2, qunit = \<lparr>scale = 1000, mpow = 0, spow = -1\<rparr>\<rparr>
           \<lparr>qval = 8, qunit = Hz\<rparr> Frequency Length False None = Inr q \<and>
        PHYS_UNIT_DICT Length = Some (qunit q) \<and> si q = - c_value / 500000)"
  using cdelt_derivative_length_frequency
          [of Frequency Length "\<lparr>qval = 2, qunit = \<lparr>scale = 1000, mpow = 0, spow = -1\<rparr>\<rparr>"
              "\<lparr>qval = 8, qunit = Hz\<rparr>" False None]
  by (simp add: unit_defs si_def insert_commute)

subsection \<open>Runs of the axis converter\<close>

lemmas wcsset_defs =
  wcsset_def wcs_units_def wcs_linear_def lin_matrix_def SPECTRAL_SI_UNIT_def dimensionless_def
  same_dims_def bind_err_def Let_def

lemmas convert_defs =
  convert_tail_def resolve_rest_value_def axis_plan_def convert_values_def conv_part_def
  linear_unit_or_def spectral_plus_def plus_spectral_def air_pass_def to_linear_def
  linear_to_linear_def from_linear_def check_output_def cdelt_derivative_def commit_eq
  write_axis_def write_rest_def pixel_scale_matrix_def pixel_scale_spec_def
  get_rest_value_from_wcs_def bind_err_def lookup_def py_index_def tag_of_def Let_def
  doubleton_eq_iff

lemmas example_defs =
  freq_cube_restwav_def freq_cube_def wave_cube_def vrad_axis_def vrad_axis_as_freq_def
  velo_axis_def velo_axis_flat_def vopt_axis_def vopt_axis_si_def velo_swapped_cube_def
  ghz_axis_def ghz_axis_set_def ghz_axis_as_hz_def km_per_s_def GHz_def
  wave_axis_def wave_axis_as_velo_def wave_axis_back_def freq_axis_def freq_axis_as_velo_def

lemma set_examples:
  "is_set freq_cube_restwav" "is_set freq_cube" "is_set vrad_axis" "is_set vrad_axis_as_freq"
  "is_set velo_axis" "is_set vopt_axis_si" "is_set velo_swapped_cube" "is_set ghz_axis_set"
  "is_set wave_axis" "is_set wave_axis_as_velo" "is_set freq_axis" "is_set freq_axis_as_velo"
  by (simp_all add: is_set_def wcsset_defs example_defs unit_defs)

lemma unset_examples:
  "wcsset vopt_axis = Inr vopt_axis_si" "wcsset ghz_axis = Inr ghz_axis_set"
  "wcsset velo_axis_flat = Inl SingularMatrix"
  by (simp_all add: wcsset_defs example_defs unit_defs)

lemmas run_defs = example_defs convert_defs wcsset_defs quantity_defs table_defs unit_defs


lemma run_new_rest_frequency:
  "convert_spectral_axis [freq_cube_restwav] 0 Hz ''FREQ'' (Some \<lparr>qval = 5, qunit = Hz\<rparr>) =
     ([freq_cube_restwav, freq_cube_restwav\<lparr>restfrq := 5\<rparr>], Inr 1)"
  by (simp add: convert_direct run_defs)

lemma run_new_rest_wavelength:
  "convert_spectral_axis [freq_cube_restwav] 0 Hz ''FREQ'' (Some \<lparr>qval = 4, qunit = metre\<rparr>) =
     ([freq_cube_restwav, freq_cube_restwav\<lparr>restwav := 4\<rparr>], Inr 1)"
  by (simp add: convert_direct run_defs)



lemma run_flat_velo:
  "convert_spectral_axis [velo_axis_flat] 0 km_per_s ''VELO'' None =
     ([velo_axis_flat], Inl SingularMatrix)"
  by (simp add: convert_copy copy_case_def run_defs)



lemma sqrt_64_9: "sqrt (64 / 9) = 8 / 3"
proof -
  have "sqrt ((8 / 3)\<^sup>2) = 8 / 3" by simp
  then show ?thesis by (simp add: power2_eq_square)
qed

lemma sqrt_9_64: "sqrt (9 / 64) = 3 / 8"
proof -
  have "sqrt ((3 / 8)\<^sup>2) = 3 / 8" by simp
  then show ?thesis by (simp add: power2_eq_square)
qed

lemma sqrt_c_v: "sqrt 38857795680420864 = 197123808"
proof -
  have "sqrt ((197123808::real)\<^sup>2) = 197123808" by simp
  then show ?thesis by (simp add: power2_eq_square)
qed

lemma run_wave_to_velo:
  "convert_spectral_axis [wave_axis] 0 m_per_s ''VELO-W2V'' (Some \<lparr>qval = 3, qunit = metre\<rparr>) =
     ([wave_axis, wave_axis_as_velo], Inr 1)"
  by (simp add: convert_direct run_defs)

lemma run_velo_to_wave:
  "convert_spectral_axis [wave_axis, wave_axis_as_velo] 1 metre ''WAVE'' None =
     ([wave_axis, wave_axis_as_velo, wave_axis_back], Inr 2)"
  by (simp add: convert_direct run_defs sqrt_64_9 sqrt_c_v)

text \<open>
  The same round trip on a frequency axis gives the increment back: the branch of
  \<open>cdelt_derivative\<close> from a speed to a frequency is the inverse of the branch from a
  frequency to a speed.
\<close>

lemma run_freq_to_velo:
  "convert_spectral_axis [freq_axis] 0 m_per_s ''VELO-F2V'' (Some \<lparr>qval = 8, qunit = Hz\<rparr>) =
     ([freq_axis, freq_axis_as_velo], Inr 1)"
  by (simp add: convert_direct run_defs)

lemma run_velo_to_freq:
  "convert_spectral_axis [freq_axis, freq_axis_as_velo] 1 Hz ''FREQ'' None =
     ([freq_axis, freq_axis_as_velo, freq_axis\<lparr>restfrq := 8\<rparr>], Inr 2)"
  by (simp add: convert_direct run_defs sqrt_9_64 sqrt_c_v)

subsection \<open>The axis converter\<close>




text \<open>
  C10, as stated, fails: on a velocity axis whose two rest fields are 0, a conversion to a
  speed with no rest value supplied returns a copy and raises nothing.
\<close>

theorem convert_to_speed_zero_rest_copies:
  "restfrq velo_axis = 0 \<and> restwav velo_axis = 0 \<and>
   get_rest_value_from_wcs velo_axis = None \<and>
   parse_phys_type km_per_s = Speed \<and>
   convert_spectral_axis [velo_axis] 0 km_per_s ''VOPT'' None = ([velo_axis, velo_axis], Inr 1)"
  using set_examples(5)
  by (simp add: convert_copy copy_case_def is_set_def get_rest_value_from_wcs_def
        velo_axis_def km_per_s_def unit_defs)

text \<open>
  C10, amended. A rest frequency of exactly 0 counts as absent: \<open>get_rest_value_from_wcs\<close>
  falls through to the rest wavelength and returns nothing when that is 0 too. On such an
  object a conversion to a speed from a unit that is not a speed, with no rest value
  supplied, raises the missing-rest-value error, and the store is as before.
\<close>

theorem zero_rest_frequency_absent:
  assumes "restfrq (h ! mywcs) = 0"
  shows "get_rest_value_from_wcs (h ! mywcs) =
           (if restwav (h ! mywcs) \<noteq> 0 then Some \<lparr>qval = restwav (h ! mywcs), qunit = metre\<rparr>
            else None) \<and>
         (restwav (h ! mywcs) = 0 \<and> parse_phys_type outunit = Speed \<and>
          parse_phys_type (cunit (h ! mywcs) ! spec (h ! mywcs)) \<noteq> Speed \<longrightarrow>
            convert_spectral_axis h mywcs outunit out_ctype None = (h, Inl MissingRestValue))"
  using assms
  by (simp add: get_rest_value_from_wcs_def convert_direct convert_tail_def resolve_rest_value_def)

theorem zero_rest_frequency_absent_witness:
  "restfrq ([freq_cube] ! 0) = 0 \<and> restwav ([freq_cube] ! 0) = 0 \<and>
   parse_phys_type m_per_s = Speed \<and>
   parse_phys_type (cunit ([freq_cube] ! 0) ! spec ([freq_cube] ! 0)) \<noteq> Speed \<and>
   get_rest_value_from_wcs ([freq_cube] ! 0) = None \<and>
   convert_spectral_axis [freq_cube] 0 m_per_s ''VRAD'' None = ([freq_cube], Inl MissingRestValue)"
  using zero_rest_frequency_absent [of "[freq_cube]" 0 m_per_s "''VRAD''"]
  by (simp add: freq_cube_def dimensionless_def unit_defs)




text \<open>
  C8, as stated, fails: an object that carries a rest wavelength and is converted with a
  rest frequency supplied comes back with both rest fields set.
\<close>

theorem convert_sets_both_rest_fields:
  "one_rest_at_most freq_cube_restwav \<and>
   convert_spectral_axis [freq_cube_restwav] 0 Hz ''FREQ'' (Some \<lparr>qval = 5, qunit = Hz\<rparr>) =
     ([freq_cube_restwav, freq_cube_restwav\<lparr>restfrq := 5\<rparr>], Inr 1) \<and>
   restfrq (freq_cube_restwav\<lparr>restfrq := 5\<rparr>) = 5 \<and>
   restwav (freq_cube_restwav\<lparr>restfrq := 5\<rparr>) = 3 \<and>
   \<not> one_rest_at_most (freq_cube_restwav\<lparr>restfrq := 5\<rparr>)"
  using run_new_rest_frequency by (simp add: one_rest_at_most_def freq_cube_restwav_def)

text \<open>
  C8, amended. Outside the copy made for a conversion from speed to speed on an object
  with no rest value, which keeps both rest fields, the commit step writes the rest value
  it sees (the supplied one, or the one of the object when the output is a speed and none
  is supplied) into the rest field of its own kind, and leaves the other field as it is: it
  never clears a rest field. So a supplied rest value that is not zero, of the kind other
  than a rest field that the input has set, leaves both fields set in the returned object;
  and the returned object has at most one rest field set whenever the input has at most one
  set and the supplied rest value, if there is one, is not of the kind whose field the
  input leaves unset while the other is set.
\<close>

theorem convert_rest_fields:
  assumes "convert_spectral_axis h mywcs outunit out_ctype rest_value = (h', Inr newwcs)"
  shows "(copy_case (h ! mywcs) outunit \<longrightarrow>
            restfrq (h' ! newwcs) = restfrq (h ! mywcs) \<and>
            restwav (h' ! newwcs) = restwav (h ! mywcs)) \<and>
         (\<not> copy_case (h ! mywcs) outunit \<longrightarrow>
            (\<forall>rv. rest_used outunit rest_value (get_rest_value_from_wcs (h ! mywcs)) = Some rv \<and>
                  parse_phys_type (qunit rv) = Frequency \<longrightarrow>
                  restfrq (h' ! newwcs) = si rv \<and>
                  restwav (h' ! newwcs) = restwav (h ! mywcs)) \<and>
            (\<forall>rv. rest_used outunit rest_value (get_rest_value_from_wcs (h ! mywcs)) = Some rv \<and>
                  parse_phys_type (qunit rv) = Length \<longrightarrow>
                  restwav (h' ! newwcs) = si rv \<and>
                  restfrq (h' ! newwcs) = restfrq (h ! mywcs)) \<and>
            (rest_used outunit rest_value (get_rest_value_from_wcs (h ! mywcs)) = None \<longrightarrow>
                  restfrq (h' ! newwcs) = restfrq (h ! mywcs) \<and>
                  restwav (h' ! newwcs) = restwav (h ! mywcs))) \<and>
         (\<forall>rv. \<not> copy_case (h ! mywcs) outunit \<and> rest_value = Some rv \<and> si rv \<noteq> 0 \<and>
               (parse_phys_type (qunit rv) = Frequency \<and> restwav (h ! mywcs) \<noteq> 0 \<or>
                parse_phys_type (qunit rv) = Length \<and> restfrq (h ! mywcs) \<noteq> 0) \<longrightarrow>
               \<not> one_rest_at_most (h' ! newwcs)) \<and>
         (one_rest_at_most (h ! mywcs) \<and>
          (\<forall>rv. rest_value = Some rv \<longrightarrow>
             (parse_phys_type (qunit rv) = Frequency \<longrightarrow> restwav (h ! mywcs) = 0) \<and>
             (parse_phys_type (qunit rv) = Length \<longrightarrow> restfrq (h ! mywcs) = 0)) \<longrightarrow>
          one_rest_at_most (h' ! newwcs))"
proof -
  let ?w = "h ! mywcs"
  let ?o = "h' ! newwcs"
  let ?used = "rest_used outunit rest_value (get_rest_value_from_wcs ?w)"
  have copied: "restfrq ?o = restfrq ?w \<and> restwav ?o = restwav ?w" if "copy_case ?w outunit"
  proof -
    from convert_shape [OF assms] that obtain X where
      "h' ! newwcs = X" "wcsset ?w = Inr X" by auto
    then show ?thesis using wcsset_rest [of ?w X] by simp
  qed
  have written: "restfrq ?o = restfrq_after ?used (restfrq ?w) \<and>
                 restwav ?o = restwav_after ?used (restwav ?w)" if "\<not> copy_case ?w outunit"
  proof -
    from convert_shape [OF assms] that obtain X inc un rv where
      "h' ! newwcs = set_spectral X inc un rv out_ctype
         (restfrq_after ?used (restfrq ?w)) (restwav_after ?used (restwav ?w))" by auto
    then show ?thesis by (simp add: set_spectral_rest)
  qed
  have own: "restfrq_after (get_rest_value_from_wcs ?w) (restfrq ?w) = restfrq ?w \<and>
             restwav_after (get_rest_value_from_wcs ?w) (restwav ?w) = restwav ?w"
  proof (cases "get_rest_value_from_wcs ?w")
    case None
    then show ?thesis by (simp add: restfrq_after_def restwav_after_def)
  next
    case (Some a)
    then show ?thesis using own_rest_value_kept [OF Some] by simp
  qed
  have first: "copy_case ?w outunit \<longrightarrow> restfrq ?o = restfrq ?w \<and> restwav ?o = restwav ?w"
    using copied by blast
  have second: "\<not> copy_case ?w outunit \<longrightarrow>
      (\<forall>rv. ?used = Some rv \<and> parse_phys_type (qunit rv) = Frequency \<longrightarrow>
            restfrq ?o = si rv \<and> restwav ?o = restwav ?w) \<and>
      (\<forall>rv. ?used = Some rv \<and> parse_phys_type (qunit rv) = Length \<longrightarrow>
            restwav ?o = si rv \<and> restfrq ?o = restfrq ?w) \<and>
      (?used = None \<longrightarrow> restfrq ?o = restfrq ?w \<and> restwav ?o = restwav ?w)"
    using written by (auto simp: restfrq_after_def restwav_after_def)
  have used_supplied: "?used = Some rv" if "rest_value = Some rv" for rv
    using that by (simp add: rest_used_def)
  have third: "\<forall>rv. \<not> copy_case ?w outunit \<and> rest_value = Some rv \<and> si rv \<noteq> 0 \<and>
               (parse_phys_type (qunit rv) = Frequency \<and> restwav ?w \<noteq> 0 \<or>
                parse_phys_type (qunit rv) = Length \<and> restfrq ?w \<noteq> 0) \<longrightarrow>
               \<not> one_rest_at_most ?o"
    using second used_supplied by (auto simp: one_rest_at_most_def)
  have fourth: "one_rest_at_most ?o"
    if inv: "one_rest_at_most ?w"
    and kind: "\<forall>rv. rest_value = Some rv \<longrightarrow>
             (parse_phys_type (qunit rv) = Frequency \<longrightarrow> restwav ?w = 0) \<and>
             (parse_phys_type (qunit rv) = Length \<longrightarrow> restfrq ?w = 0)"
  proof (cases "copy_case ?w outunit")
    case True
    then show ?thesis using copied inv by (simp add: one_rest_at_most_def)
  next
    case False
    note w = written [OF False]
    show ?thesis
    proof (cases rest_value)
      case None
      then have "?used = get_rest_value_from_wcs ?w \<or> ?used = None"
        by (simp add: rest_used_def)
      then have "restfrq_after ?used (restfrq ?w) = restfrq ?w \<and>
                 restwav_after ?used (restwav ?w) = restwav ?w"
      proof
        assume "?used = get_rest_value_from_wcs ?w"
        then show ?thesis using own by simp
      next
        assume "?used = None"
        then show ?thesis by (simp add: restfrq_after_def restwav_after_def)
      qed
      with w inv show ?thesis by (simp add: one_rest_at_most_def)
    next
      case (Some rv)
      then have u: "?used = Some rv" by (simp add: rest_used_def)
      from kind Some have k:
        "parse_phys_type (qunit rv) = Frequency \<longrightarrow> restwav ?w = 0"
        "parse_phys_type (qunit rv) = Length \<longrightarrow> restfrq ?w = 0" by auto
      show ?thesis
        using w inv k unfolding u
        by (auto simp: one_rest_at_most_def restfrq_after_def restwav_after_def)
    qed
  qed
  show ?thesis using first second third fourth by blast
qed

theorem convert_rest_fields_witness:
  "convert_spectral_axis [freq_cube_restwav] 0 Hz ''FREQ'' (Some \<lparr>qval = 4, qunit = metre\<rparr>) =
     ([freq_cube_restwav, freq_cube_restwav\<lparr>restwav := 4\<rparr>], Inr 1) \<and>
   \<not> copy_case ([freq_cube_restwav] ! 0) Hz \<and>
   rest_used Hz (Some \<lparr>qval = 4, qunit = metre\<rparr>) (get_rest_value_from_wcs ([freq_cube_restwav] ! 0)) =
     Some \<lparr>qval = 4, qunit = metre\<rparr> \<and>
   parse_phys_type (qunit \<lparr>qval = 4, qunit = metre\<rparr>) = Length \<and>
   one_rest_at_most ([freq_cube_restwav] ! 0) \<and>
   restfrq ([freq_cube_restwav] ! 0) = 0 \<and>
   restwav ([freq_cube_restwav, freq_cube_restwav\<lparr>restwav := 4\<rparr>] ! 1) = 4 \<and>
   restfrq ([freq_cube_restwav, freq_cube_restwav\<lparr>restwav := 4\<rparr>] ! 1) = 0 \<and>
   one_rest_at_most ([freq_cube_restwav, freq_cube_restwav\<lparr>restwav := 4\<rparr>] ! 1)"
proof -
  let ?rv = "\<lparr>qval = 4, qunit = metre\<rparr>"
  let ?out = "[freq_cube_restwav, freq_cube_restwav\<lparr>restwav := 4\<rparr>] ! 1"
  note t = convert_rest_fields [OF run_new_rest_wavelength]
  have nc: "\<not> copy_case ([freq_cube_restwav] ! 0) Hz"
    by (simp add: copy_case_def unit_defs)
  have used: "rest_used Hz (Some ?rv) (get_rest_value_from_wcs ([freq_cube_restwav] ! 0)) = Some ?rv"
    by (simp add: rest_used_def)
  have kind: "parse_phys_type (qunit ?rv) = Length" by (simp add: unit_defs)
  have inv: "one_rest_at_most ([freq_cube_restwav] ! 0)" "restfrq ([freq_cube_restwav] ! 0) = 0"
    by (simp_all add: one_rest_at_most_def freq_cube_restwav_def)
  have "restwav ?out = si ?rv \<and> restfrq ?out = restfrq ([freq_cube_restwav] ! 0)"
    using t nc used kind by blast
  moreover have "one_rest_at_most ?out"
    using t inv kind by simp
  ultimately show ?thesis
    using run_new_rest_wavelength nc used kind inv by (simp add: si_def unit_defs)
qed




text \<open>
  C5 fails on the code. A wavelength axis at 8 m with an increment of 73 m, converted to
  relativistic velocity for a rest wavelength of 3 m (the ctype is the one the resolver
  gives) and converted back, has its reference value again but an increment of 657/64 m:
  the increment comes back multiplied by \<open>(c - v) / (c + v)\<close>, here 9/64. The branch of
  \<open>cdelt_derivative\<close> from a speed to a length divides by \<open>(c + v)\<close> as the branch to a
  frequency rightly does, where the derivative of the wavelength has \<open>(c - v)\<close>.
\<close>

theorem round_trip_wave_velo_increment:
  "determine_ctype_from_vconv ''WAVE'' m_per_s (Some (VCFun Relativistic)) = Inr ''VELO-W2V'' \<and>
   determine_ctype_from_vconv ''VELO-W2V'' metre None = Inr ''WAVE'' \<and>
   convert_spectral_axis [wave_axis] 0 m_per_s ''VELO-W2V'' (Some \<lparr>qval = 3, qunit = metre\<rparr>) =
     ([wave_axis, wave_axis_as_velo], Inr 1) \<and>
   convert_spectral_axis [wave_axis, wave_axis_as_velo] 1 metre ''WAVE'' None =
     ([wave_axis, wave_axis_as_velo, wave_axis_back], Inr 2) \<and>
   crval wave_axis_back ! 0 = crval wave_axis ! 0 \<and>
   pixel_scale_spec wave_axis = 73 \<and>
   pixel_scale_spec wave_axis_back = 657 / 64 \<and>
   \<not> \<bar>pixel_scale_spec wave_axis_back - pixel_scale_spec wave_axis\<bar>
       \<le> \<bar>pixel_scale_spec wave_axis\<bar> / 1000000000"
  using run_wave_to_velo run_velo_to_wave
  by (simp add: determine_ctype_from_vconv_def in_physchar_of_def bind_err_def lookup_def
        py_index_def format_ctype_def tag_of_def by_convention_def table_defs unit_defs
        pixel_scale_spec_def wave_axis_def wave_axis_back_def)

end
